theory Spec2Isabelle
  imports Main "HOL-Library.Sublist"
begin

section \<open>Python values used by cli.py\<close>

text \<open>
  A Python \<open>str\<close> is a sequence of Unicode code points and a \<open>bytes\<close> object a
  sequence of byte values; both are lists of naturals here (a byte value is below 256,
  and the UTF-8 decoder below rejects every sequence holding anything else).
  \<open>ascii\<close> writes a literal of the source.
\<close>

type_synonym pystr = "nat list"
type_synonym pybytes = "nat list"

definition ascii :: "string \<Rightarrow> pystr" where
  "ascii s = map of_char s"

datatype exn =
    ValueError | TypeError | AttributeError | IndexError
  | UnicodeDecodeError | FileNotFoundError
  | IsADirectoryError | NotADirectoryError | PermissionError | OSError
  | SSHException | CalledProcessError
  | KeyboardInterrupt | EOFError

text \<open>
  Why the operating system refuses to open a path or to start a process, and the exception
  Python raises for it (\<open>OSError\<close> for any other reason).
\<close>

datatype oserror = ENOENT | EISDIR | ENOTDIR | EACCES | EOTHER

fun os_exn :: "oserror \<Rightarrow> exn" where
  "os_exn ENOENT = FileNotFoundError"
| "os_exn EISDIR = IsADirectoryError"
| "os_exn ENOTDIR = NotADirectoryError"
| "os_exn EACCES = PermissionError"
| "os_exn EOTHER = OSError"

subsection \<open>str methods\<close>

text \<open>\<open>str.isspace\<close> of one code point (the whitespace table of CPython).\<close>

definition py_isspace :: "nat \<Rightarrow> bool" where
  "py_isspace c \<longleftrightarrow>
     (9 \<le> c \<and> c \<le> 13) \<or> (28 \<le> c \<and> c \<le> 32) \<or> c = 133 \<or> c = 160 \<or> c = 5760 \<or>
     (8192 \<le> c \<and> c \<le> 8202) \<or> c = 8232 \<or> c = 8233 \<or> c = 8239 \<or> c = 8287 \<or> c = 12288"

text \<open>\<open>s.strip()\<close>: leading and trailing whitespace removed.\<close>

definition py_strip :: "pystr \<Rightarrow> pystr" where
  "py_strip s = rev (dropWhile py_isspace (rev (dropWhile py_isspace s)))"

text \<open>\<open>s.split(sep)\<close> for a one-character separator: every occurrence splits.\<close>

fun py_split :: "nat \<Rightarrow> pystr \<Rightarrow> pystr list" where
  "py_split sep [] = [[]]"
| "py_split sep (c # s) =
     (if c = sep then [] # py_split sep s
      else (case py_split sep s of
              [] \<Rightarrow> [[c]]
            | p # ps \<Rightarrow> (c # p) # ps))"

text \<open>\<open>s.split(sep, 1)\<close>: at most one split, at the first occurrence.\<close>

fun py_split1 :: "nat \<Rightarrow> pystr \<Rightarrow> pystr list" where
  "py_split1 sep [] = [[]]"
| "py_split1 sep (c # s) =
     (if c = sep then [[], s]
      else (case py_split1 sep s of
              [] \<Rightarrow> [[c]]
            | p # ps \<Rightarrow> (c # p) # ps))"

definition py_startswith :: "pystr \<Rightarrow> pystr \<Rightarrow> bool" where
  "py_startswith s p \<longleftrightarrow> take (length p) s = p"

definition py_endswith :: "pystr \<Rightarrow> pystr \<Rightarrow> bool" where
  "py_endswith s p \<longleftrightarrow> length p \<le> length s \<and> drop (length s - length p) s = p"

text \<open>
  \<open>s.lower()\<close>. The source only compares the result with \<open>'true'\<close>; no code point
  outside A-Z lowers to one of t, r, u, e, so the ASCII mapping decides that comparison.
\<close>

definition py_lower :: "pystr \<Rightarrow> pystr" where
  "py_lower s = map (\<lambda>c. if 65 \<le> c \<and> c \<le> 90 then c + 32 else c) s"

text \<open>\<open>' '.join(xs)\<close>.\<close>

fun py_join :: "pystr \<Rightarrow> pystr list \<Rightarrow> pystr" where
  "py_join sep [] = []"
| "py_join sep [x] = x"
| "py_join sep (x # y # ys) = x @ sep @ py_join sep (y # ys)"

text \<open>\<open>os.path.join(a, b)\<close> on POSIX.\<close>

definition path_join :: "pystr \<Rightarrow> pystr \<Rightarrow> pystr" where
  "path_join a b =
     (if py_startswith b (ascii ''/'') then b
      else if a = [] \<or> py_endswith a (ascii ''/'') then a @ b
      else a @ ascii ''/'' @ b)"

subsection \<open>Reading a text file line by line\<close>

text \<open>
  \<open>open(path, 'r')\<close> reads with universal newlines: \<open>\r\n\<close> and a lone \<open>\r\<close>
  both arrive as \<open>\n\<close>; \<open>for line in file\<close> then yields the lines, each with its
  terminating \<open>\n\<close> (the last line may have none).
\<close>

fun universal_newlines :: "pystr \<Rightarrow> pystr" where
  "universal_newlines [] = []"
| "universal_newlines [c] = (if c = 13 then [10] else [c])"
| "universal_newlines (c # d # s) =
     (if c = 13 \<and> d = 10 then 10 # universal_newlines s
      else if c = 13 then 10 # universal_newlines (d # s)
      else c # universal_newlines (d # s))"

fun py_lines :: "pystr \<Rightarrow> pystr list" where
  "py_lines [] = []"
| "py_lines (c # s) =
     (if c = 10 then [10] # py_lines s
      else (case py_lines s of
              [] \<Rightarrow> [[c]]
            | l # ls \<Rightarrow> (c # l) # ls))"

definition text_lines :: "pystr \<Rightarrow> pystr list" where
  "text_lines t = py_lines (universal_newlines t)"

section \<open>Module Descriptor Parser\<close>

text \<open>
  Each parser scans the lines of the module file for the first line that starts with its
  marker. \<open>xs[1]\<close> raises IndexError on a list shorter than two.
\<close>

definition item1 :: "'a list \<Rightarrow> exn + 'a" where
  "item1 xs = (case xs of _ # x # _ \<Rightarrow> Inr x | _ \<Rightarrow> Inl IndexError)"

fun parse_follow_log_flag_lines :: "pystr list \<Rightarrow> exn + bool" where
  "parse_follow_log_flag_lines [] = Inr False"
| "parse_follow_log_flag_lines (line # rest) =
     (if py_startswith line (ascii ''# Follow_log:'') then
        (case item1 (py_split 58 (py_strip line)) of
           Inl e \<Rightarrow> Inl e
         | Inr x \<Rightarrow> Inr (py_lower (py_strip x) = ascii ''true''))
      else parse_follow_log_flag_lines rest)"

fun parse_dependencies_lines :: "pystr list \<Rightarrow> exn + pystr list" where
  "parse_dependencies_lines [] = Inr []"
| "parse_dependencies_lines (line # rest) =
     (if py_startswith line (ascii ''# Dependencies:'') then
        (case item1 (py_split 58 (py_strip line)) of
           Inl e \<Rightarrow> Inl e
         | Inr x \<Rightarrow> Inr (map py_strip (py_split 44 x)))
      else parse_dependencies_lines rest)"

fun parse_silent_flag_lines :: "pystr list \<Rightarrow> exn + bool" where
  "parse_silent_flag_lines [] = Inr False"
| "parse_silent_flag_lines (line # rest) =
     (if py_startswith line (ascii ''# Silent:'') then
        (case item1 (py_split 58 (py_strip line)) of
           Inl e \<Rightarrow> Inl e
         | Inr x \<Rightarrow> Inr (py_lower (py_strip x) = ascii ''true''))
      else parse_silent_flag_lines rest)"

fun parse_logfile_path_lines :: "pystr list \<Rightarrow> exn + pystr option" where
  "parse_logfile_path_lines [] = Inr None"
| "parse_logfile_path_lines (line # rest) =
     (if py_startswith line (ascii ''# Logfile:'') then
        (case item1 (py_split 58 (py_strip line)) of
           Inl e \<Rightarrow> Inl e
         | Inr x \<Rightarrow> Inr (Some (py_strip x)))
      else parse_logfile_path_lines rest)"

section \<open>bytes and str conversions\<close>

text \<open>
  \<open>bytes.decode('utf-8')\<close> is strict: an overlong form, a surrogate, a value above
  U+10FFFF or a truncated sequence raises UnicodeDecodeError. \<open>utf8_take\<close> decodes the
  first code point and returns it with the remaining bytes.
\<close>

definition utf8_cont :: "nat \<Rightarrow> bool" where
  "utf8_cont b \<longleftrightarrow> 128 \<le> b \<and> b \<le> 191"

definition utf8_two :: "nat \<Rightarrow> pybytes \<Rightarrow> (nat \<times> pybytes) option" where
  "utf8_two b0 bs =
     (case bs of
        b1 # r \<Rightarrow> if utf8_cont b1 then Some ((b0 - 192) * 64 + (b1 - 128), r) else None
      | _ \<Rightarrow> None)"

definition utf8_three :: "nat \<Rightarrow> pybytes \<Rightarrow> (nat \<times> pybytes) option" where
  "utf8_three b0 bs =
     (case bs of
        b1 # b2 # r \<Rightarrow>
          if (if b0 = 224 then 160 else 128) \<le> b1 \<and> b1 \<le> (if b0 = 237 then 159 else 191)
             \<and> utf8_cont b2
          then Some ((b0 - 224) * 4096 + (b1 - 128) * 64 + (b2 - 128), r) else None
      | _ \<Rightarrow> None)"

definition utf8_four :: "nat \<Rightarrow> pybytes \<Rightarrow> (nat \<times> pybytes) option" where
  "utf8_four b0 bs =
     (case bs of
        b1 # b2 # b3 # r \<Rightarrow>
          if (if b0 = 240 then 144 else 128) \<le> b1 \<and> b1 \<le> (if b0 = 244 then 143 else 191)
             \<and> utf8_cont b2 \<and> utf8_cont b3
          then Some ((b0 - 240) * 262144 + (b1 - 128) * 4096 + (b2 - 128) * 64 + (b3 - 128), r)
          else None
      | _ \<Rightarrow> None)"

definition utf8_take :: "pybytes \<Rightarrow> (nat \<times> pybytes) option" where
  "utf8_take bs =
     (case bs of
        [] \<Rightarrow> None
      | b0 # r \<Rightarrow>
          if b0 < 128 then Some (b0, r)
          else if 194 \<le> b0 \<and> b0 \<le> 223 then utf8_two b0 r
          else if 224 \<le> b0 \<and> b0 \<le> 239 then utf8_three b0 r
          else if 240 \<le> b0 \<and> b0 \<le> 244 then utf8_four b0 r
          else None)"

text \<open>
  \<open>str.encode('utf-8')\<close>. A str that came out of the strict decoder holds no
  surrogate, so encoding it does not fail.
\<close>

definition utf8_enc1 :: "nat \<Rightarrow> pybytes" where
  "utf8_enc1 c =
     (if c < 128 then [c]
      else if c < 2048 then [192 + c div 64, 128 + c mod 64]
      else if c < 65536 then [224 + c div 4096, 128 + (c div 64) mod 64, 128 + c mod 64]
      else [240 + c div 262144, 128 + (c div 4096) mod 64, 128 + (c div 64) mod 64,
            128 + c mod 64])"

text \<open>The decoder inverts the encoder: what was decoded encodes to the same bytes.\<close>

lemma dm2: "y < 64 \<Longrightarrow> (x * 64 + y) div 64 = (x::nat) \<and> (x * 64 + y) mod 64 = y"
  by simp

lemma dm3:
  assumes "y < 64" "z < 64"
  shows "(x * 4096 + y * 64 + z) div 4096 = (x::nat) \<and> ((x * 4096 + y * 64 + z) div 64) mod 64 = y
       \<and> (x * 4096 + y * 64 + z) mod 64 = z"
proof -
  define m where "m = x * 64 + y"
  have e: "x * 4096 + y * 64 + z = m * 64 + z" by (simp add: m_def)
  have a: "(m * 64 + z) div 64 = m" and b: "(m * 64 + z) mod 64 = z"
    using dm2[OF assms(2), of m] by simp_all
  have m: "m div 64 = x" "m mod 64 = y" using dm2[OF assms(1), of x] by (simp_all add: m_def)
  have "(m * 64 + z) div 4096 = ((m * 64 + z) div 64) div 64"
    using div_mult2_eq[of "m * 64 + z" 64 64] by simp
  then have c: "(m * 64 + z) div 4096 = x" using a m by simp
  show ?thesis unfolding e using a b c m by simp
qed
lemma dm4:
  assumes "y < 64" "z < 64" "u < 64"
  shows "(x * 262144 + y * 4096 + z * 64 + u) div 262144 = (x::nat)
       \<and> ((x * 262144 + y * 4096 + z * 64 + u) div 4096) mod 64 = y
       \<and> ((x * 262144 + y * 4096 + z * 64 + u) div 64) mod 64 = z
       \<and> (x * 262144 + y * 4096 + z * 64 + u) mod 64 = u"
proof -
  define m where "m = x * 4096 + y * 64 + z"
  have e: "x * 262144 + y * 4096 + z * 64 + u = m * 64 + u" by (simp add: m_def)
  have a: "(m * 64 + u) div 64 = m" and b: "(m * 64 + u) mod 64 = u"
    using dm2[OF assms(3), of m] by simp_all
  have m: "m div 4096 = x" "(m div 64) mod 64 = y" "m mod 64 = z"
    using dm3[OF assms(1,2), of x] by (simp_all add: m_def)
  have "(m * 64 + u) div 4096 = ((m * 64 + u) div 64) div 64"
    using div_mult2_eq[of "m * 64 + u" 64 64] by simp
  then have c: "(m * 64 + u) div 4096 = m div 64" using a by simp
  have "(m * 64 + u) div 262144 = ((m * 64 + u) div 64) div 4096"
    using div_mult2_eq[of "m * 64 + u" 64 4096] by simp
  then have d: "(m * 64 + u) div 262144 = x" using a m by simp
  show ?thesis unfolding e using a b c d m by simp
qed



lemma ge_add: "a \<le> b \<Longrightarrow> \<exists>x::nat. b = a + x"
  by (rule exI[of _ "b - a"]) simp

lemma utf8_two_Some:
  assumes "utf8_two b0 bs = Some (c, r)"
  shows "\<exists>b1. bs = b1 # r \<and> utf8_cont b1 \<and> c = (b0 - 192) * 64 + (b1 - 128)"
  using assms by (cases bs) (simp_all add: utf8_two_def split: if_splits)

lemma utf8_two_enc:
  assumes "utf8_two b0 bs = Some (c, r)" "194 \<le> b0" "b0 \<le> 223"
  shows "b0 # bs = utf8_enc1 c @ r"
proof -
  from utf8_two_Some[OF assms(1)] obtain b1 where bs: "bs = b1 # r" and b1: "utf8_cont b1"
    and c: "c = (b0 - 192) * 64 + (b1 - 128)"
    by blast
  from assms(2) have "192 \<le> b0" by simp
  from ge_add[OF this] obtain x where x: "b0 = 192 + x" by blast
  from b1 have "128 \<le> b1" by (simp add: utf8_cont_def)
  from ge_add[OF this] obtain y where y: "b1 = 128 + y" by blast
  have xb: "2 \<le> x" "x < 32" using assms(2,3) x by simp_all
  have yb: "y < 64" using b1 y by (simp add: utf8_cont_def)
  have c': "c = x * 64 + y" using c x y by simp
  have rg: "128 \<le> c" "c < 2048" using c' xb yb by simp_all
  have d: "c div 64 = x" "c mod 64 = y" using dm2[OF yb, of x] c' by simp_all
  have "utf8_enc1 c = [192 + x, 128 + y]" using rg d by (simp add: utf8_enc1_def)
  then show ?thesis using bs x y by simp
qed


lemma utf8_three_Some:
  assumes "utf8_three b0 bs = Some (c, r)"
  shows "\<exists>b1 b2. bs = b1 # b2 # r
           \<and> (if b0 = 224 then 160 else 128) \<le> b1 \<and> b1 \<le> (if b0 = 237 then 159 else 191)
           \<and> utf8_cont b2 \<and> c = (b0 - 224) * 4096 + (b1 - 128) * 64 + (b2 - 128)"
proof (cases bs)
  case Nil
  with assms show ?thesis by (simp add: utf8_three_def)
next
  case (Cons b1 t)
  show ?thesis
  proof (cases t)
    case Nil
    with Cons assms show ?thesis by (simp add: utf8_three_def)
  next
    case (Cons b2 u)
    with \<open>bs = b1 # t\<close> assms show ?thesis
      by (simp add: utf8_three_def split: if_splits)
  qed
qed

lemma utf8_three_enc:
  assumes "utf8_three b0 bs = Some (c, r)" "224 \<le> b0" "b0 \<le> 239"
  shows "b0 # bs = utf8_enc1 c @ r"
proof -
  from utf8_three_Some[OF assms(1)] obtain b1 b2 where bs: "bs = b1 # b2 # r"
    and b1: "(if b0 = 224 then 160 else 128) \<le> b1" "b1 \<le> (if b0 = 237 then 159 else 191)"
    and b2: "utf8_cont b2"
    and c: "c = (b0 - 224) * 4096 + (b1 - 128) * 64 + (b2 - 128)"
    by blast
  have b1lo: "128 \<le> b1" using b1(1) by (simp split: if_splits)
  have b1hi: "b1 \<le> 191" using b1(2) by (simp split: if_splits)
  have b2lo: "128 \<le> b2" using b2 by (simp add: utf8_cont_def)
  from ge_add[OF assms(2)] obtain x where x: "b0 = 224 + x" by blast
  from ge_add[OF b1lo] obtain y where y: "b1 = 128 + y" by blast
  from ge_add[OF b2lo] obtain z where z: "b2 = 128 + z" by blast
  have xb: "x < 16" using assms(3) x by simp
  have yb: "y < 64" using b1hi y by simp
  have zb: "z < 64" using b2 z by (simp add: utf8_cont_def)
  have c': "c = x * 4096 + y * 64 + z" using c x y z by simp
  have lo: "2048 \<le> c"
  proof (cases "x = 0")
    case True
    with b1(1) x y have "32 \<le> y" by simp
    then have "32 * 64 \<le> y * 64" by (rule mult_le_mono1)
    with c' show ?thesis by simp
  next
    case False
    then have "1 \<le> x" by simp
    then have "1 * 4096 \<le> x * 4096" by (rule mult_le_mono1)
    with c' show ?thesis by simp
  qed
  have hi: "c < 65536"
  proof -
    from xb have "x \<le> 15" by simp
    then have "x * 4096 \<le> 15 * 4096" by (rule mult_le_mono1)
    moreover from yb have "y \<le> 63" by simp
    then have "y * 64 \<le> 63 * 64" by (rule mult_le_mono1)
    ultimately show ?thesis using c' zb by simp
  qed
  have d: "c div 4096 = x" "(c div 64) mod 64 = y" "c mod 64 = z"
    using dm3[OF yb zb, of x] c' by simp_all
  have "utf8_enc1 c = [224 + x, 128 + y, 128 + z]" using lo hi d by (simp add: utf8_enc1_def)
  then show ?thesis using bs x y z by simp
qed

lemma utf8_four_Some:
  assumes "utf8_four b0 bs = Some (c, r)"
  shows "\<exists>b1 b2 b3. bs = b1 # b2 # b3 # r
           \<and> (if b0 = 240 then 144 else 128) \<le> b1 \<and> b1 \<le> (if b0 = 244 then 143 else 191)
           \<and> utf8_cont b2 \<and> utf8_cont b3
           \<and> c = (b0 - 240) * 262144 + (b1 - 128) * 4096 + (b2 - 128) * 64 + (b3 - 128)"
proof (cases bs)
  case Nil
  with assms show ?thesis by (simp add: utf8_four_def)
next
  case c1: (Cons b1 t)
  show ?thesis
  proof (cases t)
    case Nil
    with c1 assms show ?thesis by (simp add: utf8_four_def)
  next
    case c2: (Cons b2 u)
    show ?thesis
    proof (cases u)
      case Nil
      with c1 c2 assms show ?thesis by (simp add: utf8_four_def)
    next
      case (Cons b3 v)
      with c1 c2 assms show ?thesis
        by (simp add: utf8_four_def split: if_splits)
    qed
  qed
qed

lemma utf8_four_enc:
  assumes "utf8_four b0 bs = Some (c, r)" "240 \<le> b0" "b0 \<le> 244"
  shows "b0 # bs = utf8_enc1 c @ r"
proof -
  from utf8_four_Some[OF assms(1)] obtain b1 b2 b3 where bs: "bs = b1 # b2 # b3 # r"
    and b1: "(if b0 = 240 then 144 else 128) \<le> b1" "b1 \<le> (if b0 = 244 then 143 else 191)"
    and b2: "utf8_cont b2" and b3: "utf8_cont b3"
    and c: "c = (b0 - 240) * 262144 + (b1 - 128) * 4096 + (b2 - 128) * 64 + (b3 - 128)"
    by blast
  have b1lo: "128 \<le> b1" using b1(1) by (simp split: if_splits)
  have b1hi: "b1 \<le> 191" using b1(2) by (simp split: if_splits)
  have b2lo: "128 \<le> b2" using b2 by (simp add: utf8_cont_def)
  have b3lo: "128 \<le> b3" using b3 by (simp add: utf8_cont_def)
  from ge_add[OF assms(2)] obtain x where x: "b0 = 240 + x" by blast
  from ge_add[OF b1lo] obtain y where y: "b1 = 128 + y" by blast
  from ge_add[OF b2lo] obtain z where z: "b2 = 128 + z" by blast
  from ge_add[OF b3lo] obtain u where u: "b3 = 128 + u" by blast
  have yb: "y < 64" using b1hi y by simp
  have zb: "z < 64" using b2 z by (simp add: utf8_cont_def)
  have ub: "u < 64" using b3 u by (simp add: utf8_cont_def)
  have c': "c = x * 262144 + y * 4096 + z * 64 + u" using c x y z u by simp
  have lo: "65536 \<le> c"
  proof (cases "x = 0")
    case True
    with b1(1) x y have "16 \<le> y" by simp
    then have "16 * 4096 \<le> y * 4096" by (rule mult_le_mono1)
    with c' show ?thesis by simp
  next
    case False
    then have "1 \<le> x" by simp
    then have "1 * 262144 \<le> x * 262144" by (rule mult_le_mono1)
    with c' show ?thesis by simp
  qed
  have d: "c div 262144 = x" "(c div 4096) mod 64 = y" "(c div 64) mod 64 = z" "c mod 64 = u"
    using dm4[OF yb zb ub, of x] c' by simp_all
  have "utf8_enc1 c = [240 + x, 128 + y, 128 + z, 128 + u]" using lo d by (simp add: utf8_enc1_def)
  then show ?thesis using bs x y z u by simp
qed

lemma utf8_take_enc:
  assumes "utf8_take bs = Some (c, r)"
  shows "bs = utf8_enc1 c @ r"
proof (cases bs)
  case Nil
  with assms show ?thesis by (simp add: utf8_take_def)
next
  case (Cons b0 t)
  consider "b0 < 128" | "194 \<le> b0 \<and> b0 \<le> 223" | "224 \<le> b0 \<and> b0 \<le> 239"
    | "240 \<le> b0 \<and> b0 \<le> 244" | "\<not> b0 < 128 \<and> \<not> (194 \<le> b0 \<and> b0 \<le> 223)
        \<and> \<not> (224 \<le> b0 \<and> b0 \<le> 239) \<and> \<not> (240 \<le> b0 \<and> b0 \<le> 244)"
    by blast
  then show ?thesis
  proof cases
    case 1
    with assms Cons show ?thesis by (simp add: utf8_take_def utf8_enc1_def)
  next
    case 2
    with assms Cons have "utf8_two b0 t = Some (c, r)" by (simp add: utf8_take_def)
    from utf8_two_enc[OF this] 2 Cons show ?thesis by simp
  next
    case 3
    with assms Cons have "utf8_three b0 t = Some (c, r)" by (simp add: utf8_take_def)
    from utf8_three_enc[OF this] 3 Cons show ?thesis by simp
  next
    case 4
    with assms Cons have "utf8_four b0 t = Some (c, r)" by (simp add: utf8_take_def)
    from utf8_four_enc[OF this] 4 Cons show ?thesis by simp
  next
    case 5
    with assms Cons show ?thesis by (simp add: utf8_take_def)
  qed
qed


lemma utf8_enc1_nonempty: "utf8_enc1 c \<noteq> []"
  by (simp add: utf8_enc1_def)

lemma utf8_take_shorter:
  assumes "utf8_take bs = Some p"
  shows "length (snd p) < length bs"
proof -
  from assms have "utf8_take bs = Some (fst p, snd p)" by simp
  from utf8_take_enc[OF this] have "length bs = length (utf8_enc1 (fst p)) + length (snd p)"
    by (metis length_append)
  moreover have "0 < length (utf8_enc1 (fst p))" using utf8_enc1_nonempty by simp
  ultimately show ?thesis by simp
qed

function utf8_decode :: "pybytes \<Rightarrow> pystr option" where
  "utf8_decode [] = Some []"
| "utf8_decode (b # bs) =
     (case utf8_take (b # bs) of
        None \<Rightarrow> None
      | Some p \<Rightarrow> map_option ((#) (fst p)) (utf8_decode (snd p)))"
  by pat_completeness auto
termination
proof (relation "measure length")
  show "wf (measure length)" by simp
next
  fix b bs p
  assume "utf8_take (b # bs) = Some p"
  from utf8_take_shorter[OF this] show "(snd p, b # bs) \<in> measure length" by simp
qed

definition utf8_encode :: "pystr \<Rightarrow> pybytes" where
  "utf8_encode s = concat (map utf8_enc1 s)"

lemma utf8_encode_decode: "utf8_decode bs = Some s \<Longrightarrow> utf8_encode s = bs"
proof (induction bs arbitrary: s rule: utf8_decode.induct)
  case 1
  then show ?case by (simp add: utf8_encode_def)
next
  case (2 b bs)
  from "2.prems" obtain p t where tk: "utf8_take (b # bs) = Some p"
    and dr: "utf8_decode (snd p) = Some t" and s: "s = fst p # t"
    by (auto split: option.splits)
  from "2.IH"[OF tk dr] have e: "utf8_encode t = snd p" .
  from tk have "utf8_take (b # bs) = Some (fst p, snd p)" by simp
  from utf8_take_enc[OF this] e s show ?case by (simp add: utf8_encode_def)
qed

text \<open>
  \<open>content.replace('\r\n', '\n')\<close>: one scan from the left, each CR LF pair found
  becomes LF, and the scan goes on after the pair.
\<close>

fun replace_crlf :: "nat list \<Rightarrow> nat list" where
  "replace_crlf [] = []"
| "replace_crlf [c] = [c]"
| "replace_crlf (c # d # s) =
     (if c = 13 \<and> d = 10 then 10 # replace_crlf s else c # replace_crlf (d # s))"

lemma replace_crlf_no_cr: "13 \<notin> set xs \<Longrightarrow> replace_crlf (xs @ ys) = xs @ replace_crlf ys"
proof (induction xs)
  case Nil
  then show ?case by simp
next
  case (Cons x xs)
  then show ?case by (cases "xs @ ys") auto
qed

lemma utf8_enc1_ascii: "c < 128 \<Longrightarrow> utf8_enc1 c = [c]"
  by (simp add: utf8_enc1_def)

lemma utf8_enc1_no_cr: "c \<noteq> 13 \<Longrightarrow> 13 \<notin> set (utf8_enc1 c)"
  by (simp add: utf8_enc1_def)

lemma utf8_enc1_hd: "c \<noteq> 10 \<Longrightarrow> \<exists>y ys. utf8_enc1 c = y # ys \<and> y \<noteq> 10"
  by (simp add: utf8_enc1_def)

lemma utf8_encode_Cons: "utf8_encode (c # s) = utf8_enc1 c @ utf8_encode s"
  by (simp add: utf8_encode_def)

lemma utf8_encode_replace: "utf8_encode (replace_crlf s) = replace_crlf (utf8_encode s)"
proof (induction s rule: replace_crlf.induct)
  case 1
  then show ?case by (simp add: utf8_encode_def)
next
  case (2 c)
  show ?case
  proof (cases "c = 13")
    case True
    then show ?thesis by (simp add: utf8_encode_def utf8_enc1_ascii)
  next
    case False
    from replace_crlf_no_cr[OF utf8_enc1_no_cr[OF False], of "[]"]
    show ?thesis by (simp add: utf8_encode_def)
  qed
next
  case (3 c d s)
  show ?case
  proof (cases "c = 13 \<and> d = 10")
    case True
    with 3 show ?thesis by (simp add: utf8_encode_Cons utf8_enc1_ascii)
  next
    case False
    with 3 have ih: "utf8_encode (replace_crlf (d # s)) = replace_crlf (utf8_encode (d # s))"
      by simp
    have "replace_crlf (utf8_enc1 c @ utf8_encode (d # s))
            = utf8_enc1 c @ replace_crlf (utf8_encode (d # s))"
    proof (cases "c = 13")
      case c: True
      with False have "d \<noteq> 10" by simp
      from utf8_enc1_hd[OF this] obtain y ys where e: "utf8_enc1 d = y # ys" "y \<noteq> 10" by blast
      then show ?thesis using c by (simp add: utf8_encode_Cons utf8_enc1_ascii)
    next
      case c: False
      from replace_crlf_no_cr[OF utf8_enc1_no_cr[OF c]] show ?thesis .
    qed
    moreover from False have "replace_crlf (c # d # s) = c # replace_crlf (d # s)" by simp
    ultimately show ?thesis using ih by (simp only: utf8_encode_Cons)
  qed
qed

text \<open>The body of the \<open>try\<close> in \<open>convert_line_endings_to_unix\<close>, on the file's bytes.\<close>

definition convert_content :: "pybytes \<Rightarrow> exn + pybytes" where
  "convert_content bs =
     (case utf8_decode bs of
        None \<Rightarrow> Inl UnicodeDecodeError
      | Some content \<Rightarrow> Inr (utf8_encode (replace_crlf content)))"

text \<open>
  The bytes of the file once \<open>convert_line_endings_to_unix\<close> has returned: the
  \<open>except\<close> clause prints the fault and the file keeps its bytes.
\<close>

definition converted :: "pybytes \<Rightarrow> pybytes" where
  "converted bs = (case convert_content bs of Inl e \<Rightarrow> bs | Inr bs' \<Rightarrow> bs')"

text \<open>Some CR is directly followed by LF; some CR is directly followed by CR LF.\<close>

fun has_crlf :: "nat list \<Rightarrow> bool" where
  "has_crlf (c # d # s) = ((c = 13 \<and> d = 10) \<or> has_crlf (d # s))"
| "has_crlf _ = False"

fun has_cr_crlf :: "nat list \<Rightarrow> bool" where
  "has_cr_crlf (c # d # e # s) = ((c = 13 \<and> d = 13 \<and> e = 10) \<or> has_cr_crlf (d # e # s))"
| "has_cr_crlf _ = False"

section \<open>The host: files, objects, processes, output\<close>

text \<open>
  Local storage is a store of bytes addressed by path. Everything the program does to the
  outside is appended to a trace: what it prints, the processes it starts and signals, the
  files it sends and the commands it runs on the remote host. A process handle is the
  number \<open>Popen\<close> was given when it started the process.
\<close>

text \<open>
  \<^item> \<open>Print t\<close>: \<open>print(t)\<close>; \<open>PrintExn t e\<close>: \<open>print(f"{t}{e}")\<close> for a caught
    exception \<open>e\<close>; \<open>PrintBytes b\<close>: \<open>print(b)\<close> of a bytes value;
  \<^item> \<open>Popen p argv redirect\<close>: \<open>subprocess.Popen(argv)\<close> returning the handle \<open>p\<close>, with
    both output streams sent to the file \<open>redirect\<close> when there is one;
    \<open>PopenShell c\<close>: \<open>subprocess.Popen(c, shell=True)\<close>, whose handle is dropped;
    \<open>Terminate p\<close>: \<open>p.terminate()\<close>; \<open>SubprocessRun argv\<close>:
    \<open>subprocess.run(argv, check=True)\<close>;
  \<^item> \<open>ScpPut local remote bytes\<close>: \<open>scp.put(local, remote)\<close> sending these bytes;
    \<open>ExecCommand c\<close>: \<open>ssh_client.exec_command(c)\<close>; \<open>ClientConnect host user\<close> and
    \<open>ClientClose\<close>: \<open>ssh_client.connect\<close> and \<open>ssh_client.close()\<close>.
\<close>

datatype event =
    Print pystr
  | PrintExn pystr exn
  | PrintBytes pybytes
  | Popen nat "pystr list" "pystr option"
  | PopenShell pystr
  | Terminate nat
  | ScpPut pystr pystr pybytes
  | ExecCommand pystr
  | SubprocessRun "pystr list"
  | ClientConnect pystr pystr
  | ClientClose

datatype SSHClient = SSHClient

record SSHModuleManager =
  hostname :: pystr
  username :: pystr
  remote_path :: pystr
  ssh_client :: "SSHClient option"

text \<open>
  \<open>objects\<close> is the store of the SSHModuleManager objects: the Engine and its
  ModuleManager hold references (addresses) to the same object, and a field written
  through one reference is read through the other.
\<close>

record world =
  files :: "pystr \<rightharpoonup> pybytes"
  objects :: "nat \<Rightarrow> SSHModuleManager"
  next_ref :: nat
  next_pid :: nat
  trace :: "event list"

text \<open>
  What the outside answers: whether the password prompt and the authentication succeed,
  whether the copy goes through, what a remote command writes to its two streams (\<open>None\<close>
  when \<open>exec_command\<close> or reading a stream raises, and then \<open>remote_fault\<close> is the
  exception raised), what \<open>shutil.which\<close> finds, whether a local install command exits
  with status zero, which log file paths \<open>open\<close> refuses for appending or writing (a
  directory such as \<open>logs\<close>, a path without permission, a path whose parent is missing),
  whether \<open>Popen\<close> fails to start a command, and what a started process writes to its
  output streams.
\<close>

record env =
  connect_ok :: "pystr \<Rightarrow> pystr \<Rightarrow> bool"
  scp_ok :: "pystr \<Rightarrow> bool"
  remote_output :: "pystr \<Rightarrow> (pybytes \<times> pybytes) option"
  remote_fault :: "pystr \<Rightarrow> exn"
  which :: "pystr \<Rightarrow> bool"
  run_ok :: "pystr list \<Rightarrow> bool"
  open_fault :: "pystr \<rightharpoonup> oserror"
  spawn_fault :: "pystr list \<rightharpoonup> oserror"
  child_output :: "pystr list \<Rightarrow> pybytes"

definition emit :: "event list \<Rightarrow> world \<Rightarrow> world" where
  "emit es w = w\<lparr>trace := trace w @ es\<rparr>"

text \<open>The handles of the processes started, and of those sent \<open>terminate()\<close>, in order.\<close>

fun started :: "event list \<Rightarrow> nat list" where
  "started [] = []"
| "started (Popen p argv redirect # es) = p # started es"
| "started (e # es) = started es"

fun terminated :: "event list \<Rightarrow> nat list" where
  "terminated [] = []"
| "terminated (Terminate p # es) = p # terminated es"
| "terminated (e # es) = terminated es"

text \<open>The host when the program starts: no file, no object, nothing done yet.\<close>

definition initial_world :: world where
  "initial_world =
     \<lparr>files = Map.empty,
      objects = (\<lambda>r. \<lparr>hostname = [], username = [], remote_path = [], ssh_client = None\<rparr>),
      next_ref = 0, next_pid = 0, trace = []\<rparr>"

text \<open>
  An outside that always agrees: every connection and copy succeeds, every remote command
  prints nothing, no executable is found on the search path, every install succeeds, every
  log file opens, every process starts and prints nothing.
\<close>

definition agreeable :: env where
  "agreeable =
     \<lparr>connect_ok = (\<lambda>host user. True), scp_ok = (\<lambda>path. True),
      remote_output = (\<lambda>command. Some ([], [])), remote_fault = (\<lambda>command. SSHException),
      which = (\<lambda>dep. False), run_ok = (\<lambda>argv. True), open_fault = Map.empty,
      spawn_fault = Map.empty,
      child_output = (\<lambda>argv. [])\<rparr>"

section \<open>SSHModuleManager\<close>

definition connect :: "env \<Rightarrow> nat \<Rightarrow> world \<Rightarrow> (exn + unit) \<times> world" where
  "connect en r w =
     (let self = objects w r;
          self' = (if ssh_client self = None then self\<lparr>ssh_client := Some SSHClient\<rparr> else self);
          w' = w\<lparr>objects := (objects w)(r := self')\<rparr>
      in if connect_ok en (hostname self) (username self)
         then (Inr (), emit [ClientConnect (hostname self) (username self)] w')
         else (Inl SSHException, w'))"

definition disconnect :: "nat \<Rightarrow> world \<Rightarrow> world" where
  "disconnect r w =
     (let self = objects w r
      in if ssh_client self = None then w
         else emit [ClientClose] (w\<lparr>objects := (objects w)(r := self\<lparr>ssh_client := None\<rparr>)\<rparr>))"

definition convert_line_endings_to_unix :: "pystr \<Rightarrow> world \<Rightarrow> world" where
  "convert_line_endings_to_unix file_path w =
     (case files w file_path of
        None \<Rightarrow> emit [PrintExn (ascii ''Error converting line endings: '') FileNotFoundError] w
      | Some bs \<Rightarrow>
          (case convert_content bs of
             Inl e \<Rightarrow> emit [PrintExn (ascii ''Error converting line endings: '') e] w
           | Inr bs' \<Rightarrow> w\<lparr>files := (files w)(file_path \<mapsto> bs')\<rparr>))"

definition transfer_file :: "env \<Rightarrow> nat \<Rightarrow> pystr \<Rightarrow> world \<Rightarrow> world" where
  "transfer_file en r local_path w =
     (if files w local_path = None
      then emit [Print (ascii ''File not found: '' @ local_path)] w
      else
        (let w1 = convert_line_endings_to_unix local_path w;
             self = objects w1 r
         in case ssh_client self of
              None \<Rightarrow> emit [PrintExn (ascii ''Error transferring file: '') AttributeError] w1
            | Some client \<Rightarrow>
                (case files w1 local_path of
                   None \<Rightarrow>
                     emit [PrintExn (ascii ''Error transferring file: '') FileNotFoundError] w1
                 | Some bs \<Rightarrow>
                     if scp_ok en local_path
                     then emit [ScpPut local_path (remote_path self) bs,
                                Print (ascii ''File transferred successfully: '' @ local_path)] w1
                     else emit [PrintExn (ascii ''Error transferring file: '') SSHException] w1)))"

text \<open>The decoding and formatting of the two captured streams in \<open>run_remote_script\<close>.\<close>

definition combined_output :: "pybytes \<Rightarrow> pybytes \<Rightarrow> exn + pystr" where
  "combined_output out err =
     (case utf8_decode out of
        None \<Rightarrow> Inl UnicodeDecodeError
      | Some so \<Rightarrow>
          (case utf8_decode err of
             None \<Rightarrow> Inl UnicodeDecodeError
           | Some se \<Rightarrow>
               (let stdout_output = py_strip so;
                    stderr_output = py_strip se
                in Inr (stdout_output @ (if stderr_output = [] then [] else [10] @ stderr_output)))))"

text \<open>The command line \<open>run_remote_script\<close> builds from the extension of the script.\<close>

definition remote_command :: "SSHModuleManager \<Rightarrow> pystr \<Rightarrow> pystr list \<Rightarrow> exn + pystr" where
  "remote_command self script_name args =
     (if py_endswith script_name (ascii ''.sh'')
      then Inr (ascii ''bash '' @ remote_path self @ ascii ''/'' @ script_name @ ascii '' ''
                @ py_join (ascii '' '') args)
      else if py_endswith script_name (ascii ''.py'')
      then Inr (ascii ''python3 '' @ remote_path self @ ascii ''/'' @ script_name @ ascii '' ''
                @ py_join (ascii '' '') args)
      else Inl ValueError)"

definition run_remote_script ::
  "env \<Rightarrow> nat \<Rightarrow> pystr \<Rightarrow> pystr list \<Rightarrow> world \<Rightarrow> (exn + pystr) \<times> world" where
  "run_remote_script en r script_name args w =
     (case remote_command (objects w r) script_name args of
        Inl e \<Rightarrow> (Inl e, w)
      | Inr command \<Rightarrow>
          (case ssh_client (objects w r) of
             None \<Rightarrow> (Inl AttributeError, w)
           | Some client \<Rightarrow>
               (case remote_output en command of
                  None \<Rightarrow> (Inl (remote_fault en command), emit [ExecCommand command] w)
                | Some streams \<Rightarrow>
                    (combined_output (fst streams) (snd streams),
                     emit [ExecCommand command] w))))"

section \<open>ModuleManager\<close>

text \<open>
  The fields of the class; its \<open>remote_path\<close> is never read and is left out.
  \<open>active_processes\<close> is the Running Instance table, from module name to process handle,
  and \<open>ssh_manager\<close> a reference to an SSHModuleManager object or \<open>None\<close>.
\<close>

record ModuleManager =
  repo_url :: pystr
  modules_dir :: pystr
  modules :: "pystr list"
  active_processes :: "pystr \<rightharpoonup> nat"
  ssh_manager :: "nat option"

definition new_ModuleManager :: "pystr \<Rightarrow> nat option \<Rightarrow> ModuleManager" where
  "new_ModuleManager url ssh =
     \<lparr>repo_url = url, modules_dir = ascii ''modules'', modules = [],
      active_processes = Map.empty, ssh_manager = ssh\<rparr>"

text \<open>
  \<open>with open(module_path, 'r') as file: for line in file\<close>. The text is decoded as
  UTF-8 (the default of the hosts the tool runs on), here at once for the whole file.
\<close>

definition read_lines :: "world \<Rightarrow> pystr \<Rightarrow> exn + pystr list" where
  "read_lines w path =
     (case files w path of
        None \<Rightarrow> Inl FileNotFoundError
      | Some bs \<Rightarrow>
          (case utf8_decode bs of
             None \<Rightarrow> Inl UnicodeDecodeError
           | Some t \<Rightarrow> Inr (text_lines t)))"

definition parse_follow_log_flag :: "world \<Rightarrow> pystr \<Rightarrow> exn + bool" where
  "parse_follow_log_flag w module_path =
     (case read_lines w module_path of Inl e \<Rightarrow> Inl e | Inr ls \<Rightarrow> parse_follow_log_flag_lines ls)"

definition parse_dependencies :: "world \<Rightarrow> pystr \<Rightarrow> exn + pystr list" where
  "parse_dependencies w module_path =
     (case read_lines w module_path of Inl e \<Rightarrow> Inl e | Inr ls \<Rightarrow> parse_dependencies_lines ls)"

definition parse_silent_flag :: "world \<Rightarrow> pystr \<Rightarrow> exn + bool" where
  "parse_silent_flag w module_path =
     (case read_lines w module_path of Inl e \<Rightarrow> Inl e | Inr ls \<Rightarrow> parse_silent_flag_lines ls)"

definition parse_logfile_path :: "world \<Rightarrow> pystr \<Rightarrow> exn + pystr option" where
  "parse_logfile_path w module_path =
     (case read_lines w module_path of Inl e \<Rightarrow> Inl e | Inr ls \<Rightarrow> parse_logfile_path_lines ls)"

definition is_dependency_installed :: "env \<Rightarrow> pystr \<Rightarrow> bool" where
  "is_dependency_installed en dependency = which en dependency"

fun install_dependencies ::
  "env \<Rightarrow> ModuleManager \<Rightarrow> pystr list \<Rightarrow> world \<Rightarrow> (exn + unit) \<times> world" where
  "install_dependencies en self [] w = (Inr (), w)"
| "install_dependencies en self (dep # deps) w =
     (case ssh_manager self of
        Some r \<Rightarrow>
          (let install_command = ascii ''sudo apt install -y '' @ dep;
               w1 = emit [Print (ascii ''Installing dependency on remote machine: '' @ dep)] w
           in case ssh_client (objects w1 r) of
                None \<Rightarrow> (Inl AttributeError, w1)
              | Some client \<Rightarrow>
                  (case remote_output en install_command of
                     None \<Rightarrow>
                       (Inl (remote_fault en install_command),
                        emit [ExecCommand install_command] w1)
                   | Some streams \<Rightarrow>
                       install_dependencies en self deps
                         (emit [ExecCommand install_command,
                                PrintBytes (fst streams @ snd streams)] w1)))
      | None \<Rightarrow>
          if is_dependency_installed en dep
          then install_dependencies en self deps
                 (emit [Print (ascii ''Dependency '' @ [39] @ dep @ [39]
                               @ ascii '' is already installed.'')] w)
          else
            (let argv = [ascii ''sudo'', ascii ''apt'', ascii ''install'', ascii ''-y'', dep];
                 w1 = emit [Print (ascii ''Installing dependency: '' @ dep), SubprocessRun argv] w
             in if run_ok en argv then install_dependencies en self deps w1
                else (Inl CalledProcessError, w1)))"

text \<open>A string is true when it is not empty, and \<open>None\<close> is false.\<close>

definition truthy :: "pystr option \<Rightarrow> bool" where
  "truthy p = (case p of None \<Rightarrow> False | Some s \<Rightarrow> s \<noteq> [])"

definition str_of :: "pystr option \<Rightarrow> pystr" where
  "str_of p = (case p of None \<Rightarrow> ascii ''None'' | Some s \<Rightarrow> s)"

text \<open>
  \<open>open(path, 'a')\<close> of the log file raises for the empty path and for a path the
  operating system refuses; otherwise it creates the file when it is not there and keeps
  its bytes when it is.
\<close>

definition open_append :: "env \<Rightarrow> pystr \<Rightarrow> world \<Rightarrow> exn + world" where
  "open_append en path w =
     (if path = [] then Inl FileNotFoundError
      else case open_fault en path of
             Some reason \<Rightarrow> Inl (os_exn reason)
           | None \<Rightarrow>
               (case files w path of
                  None \<Rightarrow> Inr (w\<lparr>files := (files w)(path \<mapsto> [])\<rparr>)
                | Some bs \<Rightarrow> Inr w))"

text \<open>
  \<open>with open(path, 'w') as f: f.write(data)\<close> of the log file: raises as
  \<open>open(path, 'a')\<close> does;
  otherwise the file holds the data alone.
\<close>

definition open_write :: "env \<Rightarrow> pystr \<Rightarrow> pybytes \<Rightarrow> world \<Rightarrow> exn + world" where
  "open_write en path bs w =
     (if path = [] then Inl FileNotFoundError
      else case open_fault en path of
             Some reason \<Rightarrow> Inl (os_exn reason)
           | None \<Rightarrow> Inr (w\<lparr>files := (files w)(path \<mapsto> bs)\<rparr>))"

text \<open>
  A process started with its two output streams sent to a file opened for append: what it
  writes is added at the end of that file.
\<close>

definition child_writes :: "pystr \<Rightarrow> pybytes \<Rightarrow> world \<Rightarrow> world" where
  "child_writes path bs w =
     w\<lparr>files := (files w)(path \<mapsto> (case files w path of None \<Rightarrow> [] | Some old \<Rightarrow> old) @ bs)\<rparr>"

text \<open>The branch of \<open>launch_module\<close> taken when \<open>self.ssh_manager\<close> is set.\<close>

definition launch_remote ::
  "env \<Rightarrow> nat \<Rightarrow> pystr \<Rightarrow> pystr \<Rightarrow> pystr list \<Rightarrow> pystr option \<Rightarrow> ModuleManager \<Rightarrow> world
     \<Rightarrow> (exn + bool) \<times> ModuleManager \<times> world" where
  "launch_remote en r module_path module_name args logfile_path self w =
     (let w1 = transfer_file en r module_path w;
          w2 = transfer_file en r module_path w1;
          res = run_remote_script en r module_name args w2
      in case fst res of
           Inl e \<Rightarrow> (Inl e, self, snd res)
         | Inr output \<Rightarrow>
             (let w4 = emit [Print (ascii ''Saving results to '' @ str_of logfile_path)] (snd res)
              in case logfile_path of
                   None \<Rightarrow> (Inl TypeError, self, w4)
                 | Some path \<Rightarrow>
                     (case open_write en path (utf8_encode output) w4 of
                        Inl e \<Rightarrow> (Inl e, self, w4)
                      | Inr w5 \<Rightarrow> (Inr True, self, w5))))"

text \<open>
  The branch of \<open>launch_module\<close> taken when \<open>self.ssh_manager\<close> is \<open>None\<close>. The log
  file is opened before the process is started, and either step can raise; the process
  handle is stored only once \<open>Popen\<close> has returned.
\<close>

definition launch_local ::
  "env \<Rightarrow> pystr \<Rightarrow> pystr \<Rightarrow> pystr list \<Rightarrow> bool \<Rightarrow> pystr option \<Rightarrow> ModuleManager \<Rightarrow> world
     \<Rightarrow> (exn + bool) \<times> ModuleManager \<times> world" where
  "launch_local en module_path module_name local_command is_silent logfile_path self w =
     (let redirect = (if is_silent \<and> truthy logfile_path then logfile_path else None)
      in case (case redirect of None \<Rightarrow> Inr w | Some path \<Rightarrow> open_append en path w) of
           Inl e \<Rightarrow> (Inl e, self, w)
         | Inr w1 \<Rightarrow>
             (case spawn_fault en local_command of
                Some reason \<Rightarrow> (Inl (os_exn reason), self, w1)
              | None \<Rightarrow>
                  (let process = next_pid w1;
                       w2 = emit [Popen process local_command redirect]
                              (w1\<lparr>next_pid := Suc process\<rparr>);
                       w3 = (case redirect of
                               None \<Rightarrow> w2
                             | Some path \<Rightarrow> child_writes path (child_output en local_command) w2);
                       self' = self\<lparr>active_processes :=
                                      (active_processes self)(module_name \<mapsto> process)\<rparr>;
                       w4 = emit [Print (ascii ''Module '' @ module_name @ ascii '' launched.'')] w3;
                       w5 = (if is_silent \<and> truthy logfile_path
                             then emit [Print (ascii ''Logging output to ''
                                               @ str_of logfile_path)] w4
                             else w4)
                   in case parse_follow_log_flag w5 module_path of
                        Inl e \<Rightarrow> (Inl e, self', w5)
                      | Inr follow_log \<Rightarrow>
                          if follow_log \<and> truthy logfile_path
                          then
                            (let tmux_command = ascii ''tmux new-window '' @ [39]
                                   @ ascii ''tail -f '' @ str_of logfile_path @ [39]
                             in case spawn_fault en [ascii ''/bin/sh'', ascii ''-c'', tmux_command] of
                                  Some reason \<Rightarrow> (Inl (os_exn reason), self', w5)
                                | None \<Rightarrow>
                                    (Inr True, self',
                                     emit [PopenShell tmux_command,
                                           Print (ascii ''Following log in new tmux window: ''
                                                  @ str_of logfile_path)] w5))
                          else (Inr True, self', w5))))"

definition launch_module ::
  "env \<Rightarrow> ModuleManager \<Rightarrow> pystr \<Rightarrow> pystr list \<Rightarrow> world
     \<Rightarrow> (exn + bool) \<times> ModuleManager \<times> world" where
  "launch_module en self module_name args w =
     (let module_path = path_join (modules_dir self) module_name
      in if files w module_path = None
         then (Inr False, self,
               emit [Print (ascii ''Module '' @ module_name @ ascii '' not found.'')] w)
         else
           (case parse_silent_flag w module_path of
              Inl e \<Rightarrow> (Inl e, self, w)
            | Inr is_silent \<Rightarrow>
                (case parse_logfile_path w module_path of
                   Inl e \<Rightarrow> (Inl e, self, w)
                 | Inr logfile_path \<Rightarrow>
                     if py_endswith module_path (ascii ''.sh'')
                        \<or> py_endswith module_path (ascii ''.py'')
                     then
                       (let local_command =
                              [if py_endswith module_path (ascii ''.sh'') then ascii ''bash''
                               else ascii ''python3'', module_path] @ args
                        in case ssh_manager self of
                             Some r \<Rightarrow>
                               launch_remote en r module_path module_name args logfile_path self w
                           | None \<Rightarrow>
                               launch_local en module_path module_name local_command is_silent
                                 logfile_path self w)
                     else (Inr False, self,
                           emit [Print (ascii ''Unsupported module type: '' @ module_name)] w))))"

text \<open>\<open>if process:\<close> holds for every handle found: a \<open>Popen\<close> object is true.\<close>

definition stop_module :: "ModuleManager \<Rightarrow> pystr \<Rightarrow> world \<Rightarrow> ModuleManager \<times> world" where
  "stop_module self module_name w =
     (case active_processes self module_name of
        Some process \<Rightarrow>
          (self\<lparr>active_processes := (active_processes self)(module_name := None)\<rparr>,
           emit [Terminate process,
                 Print (ascii ''Module '' @ module_name @ ascii '' stopped.'')] w)
      | None \<Rightarrow>
          (self, emit [Print (ascii ''No running module named '' @ module_name @ ascii ''.'')] w))"

definition remove_module :: "ModuleManager \<Rightarrow> pystr \<Rightarrow> world \<Rightarrow> bool \<times> world" where
  "remove_module self module_name w =
     (let module_path = path_join (modules_dir self) module_name
      in if files w module_path = None
         then (False, emit [Print (ascii ''Module '' @ module_name @ ascii '' not found.'')] w)
         else (True,
               emit [Print (ascii ''Module '' @ module_name @ ascii '' has been removed.'')]
                 (w\<lparr>files := (files w)(module_path := None)\<rparr>)))"

section \<open>Engine\<close>

record Engine =
  repo :: pystr
  engine_ssh_manager :: "nat option"
  module_manager :: ModuleManager

definition new_Engine :: Engine where
  "new_Engine =
     (let url = ascii ''https://api.github.com/repos/mavedirra-01/pi-turtle/contents/modules''
      in \<lparr>repo = url, engine_ssh_manager = None, module_manager = new_ModuleManager url None\<rparr>)"

text \<open>
  \<open>get_bottom_toolbar_tokens\<close> shows a connection when
  \<open>app.ssh_manager and app.ssh_manager.ssh_client\<close>.
\<close>

definition toolbar_connected :: "Engine \<Rightarrow> world \<Rightarrow> bool" where
  "toolbar_connected app w =
     (case engine_ssh_manager app of
        None \<Rightarrow> False
      | Some r \<Rightarrow> ssh_client (objects w r) \<noteq> None)"

definition invalid_connect :: event where
  "invalid_connect = Print (ascii ''Invalid command format. Use '' @ [39]
                            @ ascii ''connect user@hostname'' @ [39] @ ascii ''.'')"

definition handle_ssh_connect ::
  "env \<Rightarrow> pystr \<Rightarrow> Engine \<Rightarrow> world \<Rightarrow> (exn + unit) \<times> Engine \<times> world" where
  "handle_ssh_connect en command self w =
     (case py_split1 32 command of
        [u, user_host] \<Rightarrow>
          (case py_split1 64 user_host of
             [user, host] \<Rightarrow>
               (let r = next_ref w;
                    w1 = w\<lparr>objects := (objects w)
                             (r := \<lparr>hostname = host, username = user,
                                    remote_path = ascii ''/tmp/'', ssh_client = None\<rparr>),
                           next_ref := Suc r\<rparr>;
                    self1 = self\<lparr>engine_ssh_manager := Some r\<rparr>;
                    res = connect en r w1
                in case fst res of
                     Inl e \<Rightarrow> (Inl e, self1, snd res)
                   | Inr x \<Rightarrow>
                       (Inr (),
                        self1\<lparr>module_manager := new_ModuleManager (repo self) (Some r)\<rparr>,
                        emit [Print (ascii ''Connected to '' @ host @ ascii '' as '' @ user)]
                          (snd res)))
           | _ \<Rightarrow> (Inr (), self, emit [invalid_connect] w))
      | _ \<Rightarrow> (Inr (), self, emit [invalid_connect] w))"

definition handle_ssh_disconnect :: "Engine \<Rightarrow> world \<Rightarrow> Engine \<times> world" where
  "handle_ssh_disconnect self w =
     (case engine_ssh_manager self of
        Some r \<Rightarrow>
          (self\<lparr>engine_ssh_manager := None\<rparr>,
           emit [Print (ascii ''Disconnected from SSH session.'')] (disconnect r w))
      | None \<Rightarrow> (self, emit [Print (ascii ''No active SSH session to disconnect.'')] w))"

text \<open>
  The \<open>except\<close> clauses of \<open>run\<close>: what the command loop does with an exception that
  reaches it, and whether the loop goes on.
\<close>

datatype loop = Continue | Break

definition error_label :: pystr where
  "error_label = ascii ''['' @ [27] @ ascii ''[31merror'' @ [27] @ ascii ''[0m] ''"

definition run_except :: "exn \<Rightarrow> world \<Rightarrow> loop \<times> world" where
  "run_except e w =
     (if e = KeyboardInterrupt
      then (Continue,
            emit [Print (error_label @ ascii ''Ctrl+C detected! use '' @ [39] @ ascii ''exit''
                         @ [39] @ ascii '' to quit.'')] w)
      else if e = EOFError then (Break, w)
      else if e = TypeError then (Continue, w)
      else (Continue, emit [PrintExn (error_label @ ascii ''An error occurred: '') e] w))"

text \<open>
  One turn of the loop on the command \<open>launch\<close>, once the prompts of
  \<open>select_and_launch_module\<close> have been answered with a module name and its arguments.
\<close>

definition run_launch ::
  "env \<Rightarrow> pystr \<Rightarrow> pystr list \<Rightarrow> Engine \<Rightarrow> world \<Rightarrow> loop \<times> Engine \<times> world" where
  "run_launch en module_name args self w =
     (let res = launch_module en (module_manager self) module_name args w;
          self' = self\<lparr>module_manager := fst (snd res)\<rparr>
      in case fst res of
           Inl e \<Rightarrow> (fst (run_except e (snd (snd res))), self', snd (run_except e (snd (snd res))))
         | Inr ok \<Rightarrow> (Continue, self', snd (snd res)))"

section \<open>Concrete hosts\<close>

text \<open>
  A host whose local storage holds one file; the state of the program after the command
  \<open>connect u@h\<close> has succeeded on a fresh Engine; and that state after \<open>disconnect\<close>.
\<close>

definition storage :: "pystr \<Rightarrow> pybytes \<Rightarrow> world" where
  "storage path bs = initial_world\<lparr>files := [path \<mapsto> bs]\<rparr>"

definition session :: "world \<Rightarrow> Engine \<times> world" where
  "session w = snd (handle_ssh_connect agreeable (ascii ''connect u@h'') new_Engine w)"

definition session_closed :: "world \<Rightarrow> Engine \<times> world" where
  "session_closed w = handle_ssh_disconnect (fst (session w)) (snd (session w))"

text \<open>
  Following the words of the specification for the log file path: the trimmed suffix of the
  marker line after a single split at its first colon.
\<close>

definition spec_logfile_path :: "pystr \<Rightarrow> pystr" where
  "spec_logfile_path line =
     py_strip (case py_split1 58 (py_strip line) of [marker, rest] \<Rightarrow> rest | _ \<Rightarrow> [])"

section \<open>Basic facts\<close>

lemma emit_emit: "emit ys (emit xs w) = emit (xs @ ys) w"
  by (simp add: emit_def)

lemma emit_fields [simp]:
  "files (emit es w) = files w" "objects (emit es w) = objects w"
  "next_pid (emit es w) = next_pid w" "next_ref (emit es w) = next_ref w"
  "trace (emit es w) = trace w @ es"
  by (simp_all add: emit_def)

lemma open_append_fields:
  assumes "open_append en p w = Inr w1"
  shows "objects w1 = objects w" "next_pid w1 = next_pid w" "trace w1 = trace w"
  using assms by (auto simp: open_append_def split: if_splits option.splits)


lemma child_writes_fields [simp]:
  "objects (child_writes p bs w) = objects w" "next_pid (child_writes p bs w) = next_pid w"
  "trace (child_writes p bs w) = trace w"
  by (simp_all add: child_writes_def)



lemma started_append: "started (xs @ ys) = started xs @ started ys"
  by (induction xs rule: started.induct) simp_all

lemma terminated_append: "terminated (xs @ ys) = terminated xs @ terminated ys"
  by (induction xs rule: terminated.induct) simp_all

lemma convert_fields [simp]:
  "objects (convert_line_endings_to_unix p w) = objects w"
  "next_pid (convert_line_endings_to_unix p w) = next_pid w"
  by (simp_all add: convert_line_endings_to_unix_def split: option.splits sum.splits)

lemma session_eval:
  "session w =
     (new_Engine\<lparr>engine_ssh_manager := Some (next_ref w),
                 module_manager := new_ModuleManager (repo new_Engine) (Some (next_ref w))\<rparr>,
      w\<lparr>objects := (objects w)
            (next_ref w := \<lparr>hostname = ascii ''h'', username = ascii ''u'',
                            remote_path = ascii ''/tmp/'', ssh_client = Some SSHClient\<rparr>),
        next_ref := Suc (next_ref w),
        trace := trace w @ [ClientConnect (ascii ''h'') (ascii ''u''),
                            Print (ascii ''Connected to h as u'')]\<rparr>)"
  by (simp add: session_def handle_ssh_connect_def connect_def Let_def agreeable_def emit_def
      ascii_def)

lemma session_closed_eval:
  "session_closed w =
     (new_Engine\<lparr>engine_ssh_manager := None,
                 module_manager := new_ModuleManager (repo new_Engine) (Some (next_ref w))\<rparr>,
      w\<lparr>objects := (objects w)
            (next_ref w := \<lparr>hostname = ascii ''h'', username = ascii ''u'',
                            remote_path = ascii ''/tmp/'', ssh_client = None\<rparr>),
        next_ref := Suc (next_ref w),
        trace := trace w @ [ClientConnect (ascii ''h'') (ascii ''u''),
                            Print (ascii ''Connected to h as u''),
                            ClientClose,
                            Print (ascii ''Disconnected from SSH session.'')]\<rparr>)"
  by (simp add: session_closed_def session_eval handle_ssh_disconnect_def disconnect_def Let_def
      emit_def)

lemmas eval_defs = launch_module_def launch_local_def launch_remote_def Let_def storage_def
  initial_world_def new_ModuleManager_def new_Engine_def path_join_def py_startswith_def
  py_endswith_def parse_silent_flag_def parse_logfile_path_def parse_follow_log_flag_def
  read_lines_def text_lines_def utf8_take_def truthy_def emit_def transfer_file_def
  convert_line_endings_to_unix_def convert_content_def run_remote_script_def remote_command_def
  combined_output_def agreeable_def str_of_def utf8_encode_def utf8_enc1_def item1_def
  py_strip_def py_isspace_def open_append_def open_write_def child_writes_def

section \<open>The parsed log file path and dependency list\<close>

text \<open>
  Claim C9 says that the parsed log file path is everything after the first colon of the
  marker line, trimmed, colons of the path included. \<open>parse_logfile_path\<close> splits the line
  at every colon and keeps the second piece only, so a path with a colon is cut at that
  colon: for the line \<open># Logfile: logs/a:b.log\<close> it returns \<open>logs/a\<close>, where the single
  split of the specification gives \<open>logs/a:b.log\<close>.
\<close>

theorem parse_logfile_path_second_colon:
  "parse_logfile_path
     (storage (ascii ''modules/x.sh'') (ascii ''# Logfile: logs/a:b.log'' @ [10]))
     (ascii ''modules/x.sh'') = Inr (Some (ascii ''logs/a''))
   \<and> spec_logfile_path (ascii ''# Logfile: logs/a:b.log'' @ [10]) = ascii ''logs/a:b.log''"
  by (simp add: parse_logfile_path_def read_lines_def storage_def initial_world_def text_lines_def
      py_startswith_def item1_def py_strip_def py_isspace_def spec_logfile_path_def
      utf8_take_def ascii_def)

text \<open>Without a marker line no path is produced.\<close>

lemma parse_logfile_path_lines_absent:
  "list_all (\<lambda>l. \<not> py_startswith l (ascii ''# Logfile:'')) ls
     \<Longrightarrow> parse_logfile_path_lines ls = Inr None"
  by (induction ls) auto

lemma py_strip_marker:
  assumes "m \<noteq> []" "\<not> py_isspace (hd m)" "\<not> py_isspace (last m)" "list_all py_isspace ws"
  shows "py_strip (m @ ws) = m"
proof -
  from assms(1,2) have a: "dropWhile py_isspace (m @ ws) = m @ ws"
    by (cases m) auto
  have "dropWhile py_isspace (rev ws @ rev m) = dropWhile py_isspace (rev m)"
  proof (rule dropWhile_append2)
    fix x assume "x \<in> set (rev ws)"
    with assms(4) show "py_isspace x" by (simp add: list_all_iff)
  qed
  moreover from assms(1,3) have "dropWhile py_isspace (rev m) = rev m"
    by (cases m rule: rev_cases) auto
  ultimately show ?thesis using a by (simp add: py_strip_def)
qed


lemma py_strip_Nil: "py_strip [] = []"
  by (simp add: py_strip_def)

lemma parse_dependencies_lines_empty:
  assumes "list_all (\<lambda>l. \<not> py_startswith l (ascii ''# Dependencies:'')) pre"
    and "list_all py_isspace ws"
  shows "parse_dependencies_lines (pre @ (ascii ''# Dependencies:'' @ ws) # post) = Inr [[]]"
proof -
  have m: "py_strip (ascii ''# Dependencies:'' @ ws) = ascii ''# Dependencies:''"
    by (rule py_strip_marker) (simp_all add: ascii_def py_isspace_def assms(2))
  have s: "py_startswith (ascii ''# Dependencies:'' @ ws) (ascii ''# Dependencies:'')"
    by (simp add: py_startswith_def)
  have i: "item1 (py_split 58 (ascii ''# Dependencies:'')) = Inr []"
    by (simp add: item1_def ascii_def)
  have h: "parse_dependencies_lines ((ascii ''# Dependencies:'' @ ws) # post) = Inr [[]]"
    by (simp only: parse_dependencies_lines.simps s m i if_True sum.case py_split.simps list.map
        py_strip_Nil)
  from assms(1) show ?thesis
  proof (induction pre)
    case Nil
    show ?case by (simp only: append_Nil h)
  next
    case (Cons l pre)
    then show ?case by simp
  qed
qed

text \<open>
  Claim C10. When the first dependencies marker line of a module has nothing after its colon
  (nothing but the line break or other whitespace), \<open>parse_dependencies\<close> returns the list
  holding one empty string, not the empty list; \<open>install_dependencies\<close> on that list then
  runs the install command for the empty package name: on the remote host whenever a
  session is in place, and locally because no executable of the empty name is found on the
  search path.
\<close>

theorem dependencies_empty_marker:
  assumes "read_lines w module_path = Inr (pre @ (ascii ''# Dependencies:'' @ ws) # post)"
    and "list_all (\<lambda>l. \<not> py_startswith l (ascii ''# Dependencies:'')) pre"
    and "list_all py_isspace ws"
  shows "parse_dependencies w module_path = Inr [[]]
       \<and> (\<forall>r client streams.
             ssh_manager self = Some r \<and> ssh_client (objects w' r) = Some client
             \<and> remote_output en (ascii ''sudo apt install -y '') = Some streams \<longrightarrow>
             install_dependencies en self [[]] w' =
               (Inr (),
                emit [Print (ascii ''Installing dependency on remote machine: ''),
                      ExecCommand (ascii ''sudo apt install -y ''),
                      PrintBytes (fst streams @ snd streams)] w'))
       \<and> (ssh_manager self = None \<and> \<not> which en [] \<longrightarrow>
             snd (install_dependencies en self [[]] w') =
               emit [Print (ascii ''Installing dependency: ''),
                     SubprocessRun [ascii ''sudo'', ascii ''apt'', ascii ''install'', ascii ''-y'', []]]
                 w')"
proof -
  have a: "parse_dependencies w module_path = Inr [[]]"
    using assms(1) parse_dependencies_lines_empty[OF assms(2,3)]
    by (simp add: parse_dependencies_def)
  have b: "\<forall>r client streams.
             ssh_manager self = Some r \<and> ssh_client (objects w' r) = Some client
             \<and> remote_output en (ascii ''sudo apt install -y '') = Some streams \<longrightarrow>
             install_dependencies en self [[]] w' =
               (Inr (),
                emit [Print (ascii ''Installing dependency on remote machine: ''),
                      ExecCommand (ascii ''sudo apt install -y ''),
                      PrintBytes (fst streams @ snd streams)] w')"
    by (simp add: Let_def emit_def)
  have c: "ssh_manager self = None \<and> \<not> which en [] \<longrightarrow>
             snd (install_dependencies en self [[]] w') =
               emit [Print (ascii ''Installing dependency: ''),
                     SubprocessRun [ascii ''sudo'', ascii ''apt'', ascii ''install'', ascii ''-y'', []]]
                 w'"
    by (simp add: Let_def is_dependency_installed_def)
  from a b c show ?thesis by blast
qed

theorem dependencies_empty_marker_witness:
  "parse_dependencies
     (storage (ascii ''modules/x.sh'')
        (ascii ''#!/bin/bash'' @ [10] @ ascii ''# Dependencies:'' @ [10] @ ascii ''echo hi'' @ [10]))
     (ascii ''modules/x.sh'') = Inr [[]]
   \<and> trace (snd (install_dependencies agreeable (new_ModuleManager [] None) [[]] initial_world))
       = [Print (ascii ''Installing dependency: ''),
          SubprocessRun [ascii ''sudo'', ascii ''apt'', ascii ''install'', ascii ''-y'', []]]
   \<and> trace (snd (install_dependencies agreeable
                    (module_manager (fst (session initial_world))) [[]]
                    (snd (session initial_world))))
       = [ClientConnect (ascii ''h'') (ascii ''u''), Print (ascii ''Connected to h as u''),
          Print (ascii ''Installing dependency on remote machine: ''),
          ExecCommand (ascii ''sudo apt install -y ''), PrintBytes []]"
proof -
  let ?w = "storage (ascii ''modules/x.sh'')
        (ascii ''#!/bin/bash'' @ [10] @ ascii ''# Dependencies:'' @ [10] @ ascii ''echo hi'' @ [10])"
  have r: "read_lines ?w (ascii ''modules/x.sh'')
             = Inr ([ascii ''#!/bin/bash'' @ [10]] @ (ascii ''# Dependencies:'' @ [10])
                    # [ascii ''echo hi'' @ [10]])"
    by (simp add: read_lines_def storage_def initial_world_def text_lines_def utf8_take_def
        ascii_def)
  have p: "list_all (\<lambda>l. \<not> py_startswith l (ascii ''# Dependencies:'')) [ascii ''#!/bin/bash'' @ [10]]"
    by (simp add: py_startswith_def ascii_def)
  have s: "list_all py_isspace [10]" by (simp add: py_isspace_def)
  have l: "ssh_manager (new_ModuleManager [] None) = None \<and> \<not> which agreeable []"
    by (simp add: new_ModuleManager_def agreeable_def)
  have m: "ssh_manager (module_manager (fst (session initial_world))) = Some 0
           \<and> ssh_client (objects (snd (session initial_world)) 0) = Some SSHClient
           \<and> remote_output agreeable (ascii ''sudo apt install -y '') = Some ([], [])"
    by (simp add: session_eval new_ModuleManager_def agreeable_def initial_world_def)
  from dependencies_empty_marker[OF r p s, of "new_ModuleManager [] None" initial_world agreeable]
    dependencies_empty_marker[OF r p s, of "module_manager (fst (session initial_world))"
      "snd (session initial_world)" agreeable] l m
  show ?thesis by (simp add: session_eval initial_world_def emit_def)
qed

section \<open>Line-ending normalization\<close>

text \<open>The two predicates say that the list holds CR LF, or CR CR LF, as consecutive elements.\<close>

lemma has_crlf_iff: "has_crlf xs \<longleftrightarrow> (\<exists>p q. xs = p @ 13 # 10 # q)"
proof (induction xs)
  case Nil
  then show ?case by simp
next
  case (Cons c xs)
  show ?case
  proof (cases xs)
    case Nil
    then show ?thesis by (auto simp: Cons_eq_append_conv)
  next
    case (Cons d s)
    show ?thesis
    proof
      assume "has_crlf (c # xs)"
      with Cons consider "c = 13 \<and> d = 10" | "has_crlf xs" by auto
      then show "\<exists>p q. c # xs = p @ 13 # 10 # q"
      proof cases
        case 1
        with Cons have "c # xs = [] @ 13 # 10 # s" by simp
        then show ?thesis by blast
      next
        case 2
        with Cons.IH obtain p q where "xs = p @ 13 # 10 # q" by auto
        then have "c # xs = (c # p) @ 13 # 10 # q" by simp
        then show ?thesis by blast
      qed
    next
      assume "\<exists>p q. c # xs = p @ 13 # 10 # q"
      then obtain p q where e: "c # xs = p @ 13 # 10 # q" by blast
      show "has_crlf (c # xs)"
      proof (cases p)
        case Nil
        with e show ?thesis by auto
      next
        case p: (Cons a p')
        with e have "xs = p' @ 13 # 10 # q" by simp
        then have "has_crlf xs" using Cons.IH by blast
        with Cons show ?thesis by simp
      qed
    qed
  qed
qed

lemma has_cr_crlf_iff: "has_cr_crlf xs \<longleftrightarrow> (\<exists>p q. xs = p @ 13 # 13 # 10 # q)"
proof (induction xs)
  case Nil
  then show ?case by simp
next
  case (Cons c xs)
  show ?case
  proof (cases xs)
    case Nil
    then show ?thesis by (auto simp: Cons_eq_append_conv)
  next
    case d: (Cons d s)
    show ?thesis
    proof (cases s)
      case Nil
      with d show ?thesis by (auto simp: Cons_eq_append_conv)
    next
      case (Cons e t)
      show ?thesis
      proof
        assume "has_cr_crlf (c # xs)"
        with d Cons consider "c = 13 \<and> d = 13 \<and> e = 10" | "has_cr_crlf xs" by auto
        then show "\<exists>p q. c # xs = p @ 13 # 13 # 10 # q"
        proof cases
          case 1
          with d Cons have "c # xs = [] @ 13 # 13 # 10 # t" by simp
          then show ?thesis by blast
        next
          case 2
          with Cons.IH obtain p q where "xs = p @ 13 # 13 # 10 # q" by auto
          then have "c # xs = (c # p) @ 13 # 13 # 10 # q" by simp
          then show ?thesis by blast
        qed
      next
        assume "\<exists>p q. c # xs = p @ 13 # 13 # 10 # q"
        then obtain p q where h: "c # xs = p @ 13 # 13 # 10 # q" by blast
        show "has_cr_crlf (c # xs)"
        proof (cases p)
          case Nil
          with h show ?thesis by auto
        next
          case p: (Cons a p')
          with h have "xs = p' @ 13 # 13 # 10 # q" by simp
          then have "has_cr_crlf xs" using Cons.IH by blast
          with d Cons show ?thesis by simp
        qed
      qed
    qed
  qed
qed

lemma has_crlf_skip: "a \<noteq> 13 \<Longrightarrow> has_crlf (a # xs) = has_crlf xs"
  by (cases xs) auto

lemma has_cr_crlf_skip: "a \<noteq> 13 \<Longrightarrow> has_cr_crlf (a # xs) = has_cr_crlf xs"
  by (cases xs rule: has_cr_crlf.cases) auto

lemma has_cr_crlf_skip2:
  "\<not> (a = 13 \<and> b = 13) \<Longrightarrow> has_cr_crlf (a # b # xs) = has_cr_crlf (b # xs)"
  by (cases xs) auto

lemma replace_crlf_head:
  "replace_crlf (d # s) =
     (if d = 13 \<and> take 1 s = [10] then 10 # replace_crlf (tl s) else d # replace_crlf s)"
  by (cases s) auto

lemma has_crlf_replace: "has_crlf (replace_crlf s) = has_cr_crlf s"
proof (induction s rule: replace_crlf.induct)
  case 1
  then show ?case by simp
next
  case (2 c)
  then show ?case by simp
next
  case (3 c d s)
  show ?case
  proof (cases "c = 13 \<and> d = 10")
    case True
    then have "has_cr_crlf (c # d # s) = has_cr_crlf s"
      by (simp add: has_cr_crlf_skip2 has_cr_crlf_skip)
    with True 3 show ?thesis by (simp add: has_crlf_skip)
  next
    case False
    with 3 have ih: "has_crlf (replace_crlf (d # s)) = has_cr_crlf (d # s)" by simp
    from False have r: "replace_crlf (c # d # s) = c # replace_crlf (d # s)" by simp
    show ?thesis
    proof (cases "d = 13 \<and> take 1 s = [10]")
      case True
      then obtain t where s: "s = 10 # t" by (cases s) auto
      with True ih False show ?thesis by (simp add: has_crlf_skip has_cr_crlf_skip)
    next
      case d: False
      then have h: "replace_crlf (d # s) = d # replace_crlf s" by (simp add: replace_crlf_head)
      from d have n: "\<not> (d = 13 \<and> (\<exists>t. s = 10 # t))" by auto
      have "has_cr_crlf (c # d # s) = has_cr_crlf (d # s)"
        using n False by (cases s) auto
      moreover have "has_crlf (c # d # replace_crlf s) = has_crlf (d # replace_crlf s)"
        using False by auto
      ultimately show ?thesis using ih r h by simp
    qed
  qed
qed

lemma filter_replace_crlf: "filter (\<lambda>b. b \<noteq> 13) (replace_crlf s) = filter (\<lambda>b. b \<noteq> 13) s"
  by (induction s rule: replace_crlf.induct) auto

lemma subseq_replace_crlf: "subseq (replace_crlf s) s"
  by (induction s rule: replace_crlf.induct) auto


lemma replace_crlf_shorter: "has_crlf s \<Longrightarrow> length (replace_crlf s) < length s"
proof (induction s rule: replace_crlf.induct)
  case (3 c d s)
  have "length (replace_crlf s) \<le> length s"
    using subseq_replace_crlf[of s] by (rule list_emb_length)
  with 3 show ?case by auto
qed simp_all

lemma converted_valid:
  assumes "utf8_decode bs = Some s"
  shows "converted bs = replace_crlf bs"
proof -
  from utf8_encode_decode[OF assms] have e: "utf8_encode s = bs" .
  have "converted bs = utf8_encode (replace_crlf s)"
    using assms by (simp add: converted_def convert_content_def)
  also have "\<dots> = replace_crlf (utf8_encode s)" by (rule utf8_encode_replace)
  finally show ?thesis using e by simp
qed

lemma converted_invalid: "utf8_decode bs = None \<Longrightarrow> converted bs = bs"
  by (simp add: converted_def convert_content_def)

lemma converted_cases: "converted bs = bs \<or> converted bs = replace_crlf bs"
  using converted_valid converted_invalid by (cases "utf8_decode bs") auto

lemma converted_length: "length (converted bs) \<le> length bs"
  using converted_cases[of bs] list_emb_length[OF subseq_replace_crlf[of bs]] by auto


lemma convert_file:
  "files w p = Some bs \<Longrightarrow> files (convert_line_endings_to_unix p w) = (files w)(p \<mapsto> converted bs)"
  by (auto simp: convert_line_endings_to_unix_def converted_def split: sum.splits)

text \<open>
  Claim C4, amended. \<open>convert_line_endings_to_unix\<close> leaves a file that does not decode as
  UTF-8 as it is. For every byte sequence that decodes, the file afterwards holds the bytes
  with each CR LF pair found in one scan from the left replaced by LF: the result has a
  CR LF pair exactly when the input has a CR directly before a CR LF pair, every byte
  other than a carriage return is preserved in order, and nothing but bytes of the input
  is left out.
\<close>

theorem convert_line_endings_to_unix_result:
  assumes "files w file_path = Some bs"
  shows "files (convert_line_endings_to_unix file_path w) file_path = Some (converted bs)
       \<and> (utf8_decode bs = None \<longrightarrow> converted bs = bs)
       \<and> (utf8_decode bs \<noteq> None \<longrightarrow>
             converted bs = replace_crlf bs
           \<and> has_crlf (converted bs) = has_cr_crlf bs
           \<and> filter (\<lambda>b. b \<noteq> 13) (converted bs) = filter (\<lambda>b. b \<noteq> 13) bs
           \<and> subseq (converted bs) bs)"
proof -
  have "files (convert_line_endings_to_unix file_path w) file_path = Some (converted bs)"
    using convert_file[OF assms] by simp
  moreover have "utf8_decode bs = None \<longrightarrow> converted bs = bs"
    by (simp add: converted_invalid)
  moreover have "utf8_decode bs \<noteq> None \<longrightarrow>
             converted bs = replace_crlf bs
           \<and> has_crlf (converted bs) = has_cr_crlf bs
           \<and> filter (\<lambda>b. b \<noteq> 13) (converted bs) = filter (\<lambda>b. b \<noteq> 13) bs
           \<and> subseq (converted bs) bs"
    using converted_valid[of bs] has_crlf_replace[of bs] filter_replace_crlf[of bs]
      subseq_replace_crlf[of bs] by auto
  ultimately show ?thesis by blast
qed

text \<open>
  Claim C4 as stated fails: the result can hold a CR LF pair. The three bytes CR CR LF
  become CR LF.
\<close>

theorem convert_line_endings_to_unix_counterexample:
  "files (convert_line_endings_to_unix (ascii ''modules/a.sh'')
            (storage (ascii ''modules/a.sh'') [13, 13, 10])) (ascii ''modules/a.sh'')
     = Some [13, 10]
   \<and> has_crlf [13, 10]"
  by (simp add: convert_line_endings_to_unix_def convert_content_def storage_def initial_world_def
      utf8_take_def utf8_encode_def utf8_enc1_def)

theorem convert_line_endings_to_unix_result_witness:
  "files (convert_line_endings_to_unix (ascii ''modules/a.sh'')
            (storage (ascii ''modules/a.sh'') [97, 13, 10, 98])) (ascii ''modules/a.sh'')
     = Some [97, 10, 98]
   \<and> files (convert_line_endings_to_unix (ascii ''modules/a.sh'')
            (storage (ascii ''modules/a.sh'') [255, 13, 10])) (ascii ''modules/a.sh'')
     = Some [255, 13, 10]"
proof -
  have a: "files (storage (ascii ''modules/a.sh'') [97, 13, 10, 98]) (ascii ''modules/a.sh'')
             = Some [97, 13, 10, 98]"
    by (simp add: storage_def)
  have b: "files (storage (ascii ''modules/a.sh'') [255, 13, 10]) (ascii ''modules/a.sh'')
             = Some [255, 13, 10]"
    by (simp add: storage_def)
  have c: "utf8_decode [97, 13, 10, 98] \<noteq> None" by (simp add: utf8_take_def)
  have d: "utf8_decode [255, 13, 10] = None" by (simp add: utf8_take_def)
  from convert_line_endings_to_unix_result[OF a] convert_line_endings_to_unix_result[OF b] c d
  show ?thesis by simp
qed

section \<open>The combined output of a remote run\<close>

text \<open>
  Claim C8, amended. For every remote script run that captures standard output \<open>S\<close> and
  standard error \<open>E\<close> (both decoded), the returned text is \<open>S\<close> with its leading and
  trailing whitespace stripped, followed, when the stripped \<open>E\<close> is not empty, by exactly
  one line break and the stripped \<open>E\<close>; it is the stripped \<open>S\<close> alone when \<open>E\<close> is empty
  or all whitespace.
\<close>

theorem run_remote_script_output:
  assumes "remote_command (objects w r) script_name args = Inr command"
    and "ssh_client (objects w r) = Some client"
    and "remote_output en command = Some (out, err)"
    and "utf8_decode out = Some S"
    and "utf8_decode err = Some E"
  shows "fst (run_remote_script en r script_name args w)
           = Inr (py_strip S @ (if py_strip E = [] then [] else [10] @ py_strip E))"
  using assms by (simp add: run_remote_script_def combined_output_def Let_def)

lemma remote_command_example:
  "remote_command (objects (snd (session initial_world)) 0) (ascii ''x.sh'') []
     = Inr (ascii ''bash /tmp//x.sh '')"
  by (simp add: session_eval remote_command_def initial_world_def py_endswith_def ascii_def)

lemma decode_example_out: "utf8_decode (ascii ''ok'' @ [10]) = Some (ascii ''ok'' @ [10])"
  by (simp add: ascii_def utf8_take_def)

lemma decode_example_err: "utf8_decode (ascii ''warn'') = Some (ascii ''warn'')"
  by (simp add: ascii_def utf8_take_def)

text \<open>
  Claim C8 as stated fails: the output is not \<open>S\<close> in full. A script that prints
  \<open>ok\<close> and a line break, and nothing on standard error, returns \<open>ok\<close> without the
  line break.
\<close>

theorem run_remote_script_output_counterexample:
  "fst (run_remote_script (agreeable\<lparr>remote_output := (\<lambda>c. Some (ascii ''ok'' @ [10], []))\<rparr>) 0
          (ascii ''x.sh'') [] (snd (session initial_world))) = Inr (ascii ''ok'')
   \<and> fst (run_remote_script (agreeable\<lparr>remote_output := (\<lambda>c. Some (ascii ''ok'' @ [10], []))\<rparr>) 0
          (ascii ''x.sh'') [] (snd (session initial_world))) \<noteq> Inr (ascii ''ok'' @ [10])"
  by (simp add: session_eval run_remote_script_def remote_command_def initial_world_def
      py_endswith_def combined_output_def py_strip_def py_isspace_def ascii_def utf8_take_def
      agreeable_def)

theorem run_remote_script_output_witness:
  "fst (run_remote_script
          (agreeable\<lparr>remote_output := (\<lambda>c. Some (ascii ''ok'' @ [10], ascii ''warn''))\<rparr>) 0
          (ascii ''x.sh'') [] (snd (session initial_world)))
     = Inr (ascii ''ok'' @ [10] @ ascii ''warn'')"
proof -
  have a: "ssh_client (objects (snd (session initial_world)) 0) = Some SSHClient"
    by (simp add: session_eval initial_world_def)
  have b: "remote_output
             (agreeable\<lparr>remote_output := (\<lambda>c. Some (ascii ''ok'' @ [10], ascii ''warn''))\<rparr>)
             (ascii ''bash /tmp//x.sh '') = Some (ascii ''ok'' @ [10], ascii ''warn'')"
    by simp
  from run_remote_script_output[OF remote_command_example a b decode_example_out
      decode_example_err]
  show ?thesis by (simp add: py_strip_def py_isspace_def ascii_def)
qed

section \<open>Launching and stopping: the Running Instance table\<close>



text \<open>
  Claim C7. \<open>stop_module\<close> on a name with no tracked instance prints "No running module
  named ..." and leaves the table (and everything else) as it was; on a tracked name it
  sends \<open>terminate()\<close> to the tracked process, removes the entry of that name and leaves
  the entry of every other name in place.
\<close>

theorem stop_module_effect:
  "(active_processes self module_name = None \<longrightarrow>
      stop_module self module_name w =
        (self, emit [Print (ascii ''No running module named '' @ module_name @ ascii ''.'')] w))
   \<and> (\<forall>process. active_processes self module_name = Some process \<longrightarrow>
        trace (snd (stop_module self module_name w))
          = trace w @ [Terminate process,
                       Print (ascii ''Module '' @ module_name @ ascii '' stopped.'')]
        \<and> active_processes (fst (stop_module self module_name w)) module_name = None
        \<and> (\<forall>other. other \<noteq> module_name \<longrightarrow>
              active_processes (fst (stop_module self module_name w)) other
                = active_processes self other))"
  by (simp add: stop_module_def emit_def)

theorem stop_module_effect_witness:
  "fst (stop_module
          ((new_ModuleManager [] None)\<lparr>active_processes := [ascii ''a.sh'' \<mapsto> 0, ascii ''b.py'' \<mapsto> 1]\<rparr>)
          (ascii ''c.sh'') initial_world)
     = (new_ModuleManager [] None)\<lparr>active_processes := [ascii ''a.sh'' \<mapsto> 0, ascii ''b.py'' \<mapsto> 1]\<rparr>
   \<and> terminated (trace (snd (stop_module
          ((new_ModuleManager [] None)\<lparr>active_processes := [ascii ''a.sh'' \<mapsto> 0, ascii ''b.py'' \<mapsto> 1]\<rparr>)
          (ascii ''a.sh'') initial_world))) = [0]
   \<and> active_processes (fst (stop_module
          ((new_ModuleManager [] None)\<lparr>active_processes := [ascii ''a.sh'' \<mapsto> 0, ascii ''b.py'' \<mapsto> 1]\<rparr>)
          (ascii ''a.sh'') initial_world)) (ascii ''a.sh'') = None
   \<and> active_processes (fst (stop_module
          ((new_ModuleManager [] None)\<lparr>active_processes := [ascii ''a.sh'' \<mapsto> 0, ascii ''b.py'' \<mapsto> 1]\<rparr>)
          (ascii ''a.sh'') initial_world)) (ascii ''b.py'') = Some 1"
  using
    stop_module_effect[of
      "(new_ModuleManager [] None)\<lparr>active_processes := [ascii ''a.sh'' \<mapsto> 0, ascii ''b.py'' \<mapsto> 1]\<rparr>"
      "ascii ''c.sh''" initial_world]
    stop_module_effect[of
      "(new_ModuleManager [] None)\<lparr>active_processes := [ascii ''a.sh'' \<mapsto> 0, ascii ''b.py'' \<mapsto> 1]\<rparr>"
      "ascii ''a.sh''" initial_world]
  by (simp add: ascii_def initial_world_def)

lemma launch_local_effect:
  assumes "launch_local en mp name cmd silent lp self w = (Inr b, self', w')"
  shows "self' = self\<lparr>active_processes := (active_processes self)(name \<mapsto> next_pid w)\<rparr>"
    and "next_pid w' = Suc (next_pid w)"
    and "started (trace w') = started (trace w) @ [next_pid w]"
    and "terminated (trace w') = terminated (trace w)"
proof -
  let ?redirect = "if silent \<and> truthy lp then lp else None"
  from assms obtain w1 where
    o: "(case ?redirect of None \<Rightarrow> Inr w | Some path \<Rightarrow> open_append en path w) = Inr w1"
    by (auto simp: launch_local_def Let_def split: sum.splits)
  have f: "next_pid w1 = next_pid w \<and> trace w1 = trace w"
    using o open_append_fields[of en _ w w1] by (auto split: option.splits if_splits)
  from assms o f
  show "self' = self\<lparr>active_processes := (active_processes self)(name \<mapsto> next_pid w)\<rparr>"
    and "next_pid w' = Suc (next_pid w)"
    and "started (trace w') = started (trace w) @ [next_pid w]"
    and "terminated (trace w') = terminated (trace w)"
    by (auto simp: launch_local_def Let_def started_append terminated_append
        split: sum.splits option.splits if_splits)
qed


lemma launch_module_local_ok:
  assumes "ssh_manager self = None"
    and "launch_module en self name args w = (Inr True, self', w')"
  shows "\<exists>cmd silent lp. launch_local en (path_join (modules_dir self) name) name cmd silent lp self w
           = (Inr True, self', w')"
  using assms
  by (auto simp: launch_module_def Let_def split: if_splits sum.splits)


text \<open>
  Claim C6. Two successive successful local launches of one module name leave one entry
  for that name in the Running Instance table (the table has gained that key and no
  other), the entry holds the handle of the second process, the first process was started
  and never sent \<open>terminate()\<close>, and a following \<open>stop_module\<close> terminates the second
  process only and removes the entry.
\<close>

theorem relaunch_overwrites:
  assumes "ssh_manager self = None"
    and "launch_module en self name args w = (Inr True, self1, w1)"
    and "launch_module en' self1 name args' w1 = (Inr True, self2, w2)"
  shows "active_processes self1 = (active_processes self)(name \<mapsto> next_pid w)
       \<and> active_processes self2 = (active_processes self)(name \<mapsto> Suc (next_pid w))
       \<and> dom (active_processes self2) = insert name (dom (active_processes self))
       \<and> started (trace w2) = started (trace w) @ [next_pid w, Suc (next_pid w)]
       \<and> terminated (trace w2) = terminated (trace w)
       \<and> terminated (trace (snd (stop_module self2 name w2)))
            = terminated (trace w) @ [Suc (next_pid w)]
       \<and> active_processes (fst (stop_module self2 name w2)) name = None"
proof -
  from launch_module_local_ok[OF assms(1,2)] obtain cmd silent lp where
    a: "launch_local en (path_join (modules_dir self) name) name cmd silent lp self w
          = (Inr True, self1, w1)"
    by blast
  note a1 = launch_local_effect[OF a]
  from a1(1) assms(1) have s1: "ssh_manager self1 = None" by simp
  from launch_module_local_ok[OF s1 assms(3)] obtain cmd' silent' lp' where
    b: "launch_local en' (path_join (modules_dir self1) name) name cmd' silent' lp' self1 w1
          = (Inr True, self2, w2)"
    by blast
  note b1 = launch_local_effect[OF b]
  have t1: "active_processes self1 = (active_processes self)(name \<mapsto> next_pid w)"
    using a1(1) by simp
  have t2: "active_processes self2 = (active_processes self)(name \<mapsto> Suc (next_pid w))"
    using a1 b1 by simp
  have st: "started (trace w2) = started (trace w) @ [next_pid w, Suc (next_pid w)]"
    using a1 b1 by simp
  have te: "terminated (trace w2) = terminated (trace w)"
    using a1 b1 by simp
  show ?thesis
    using t1 t2 st te by (simp add: stop_module_def terminated_append)
qed


lemma launch_once:
  "launch_module agreeable (new_ModuleManager [] None) (ascii ''x.sh'') []
     (storage (ascii ''modules/x.sh'') (ascii ''echo hi'' @ [10]))
   = (Inr True,
      (new_ModuleManager [] None)\<lparr>active_processes := [ascii ''x.sh'' \<mapsto> 0]\<rparr>,
      (storage (ascii ''modules/x.sh'') (ascii ''echo hi'' @ [10]))
        \<lparr>next_pid := 1,
         trace := [Popen 0 [ascii ''bash'', ascii ''modules/x.sh''] None,
                   Print (ascii ''Module x.sh launched.'')]\<rparr>)"
  by (simp add: launch_module_def launch_local_def Let_def storage_def initial_world_def
      new_ModuleManager_def path_join_def py_startswith_def py_endswith_def
      parse_silent_flag_def parse_logfile_path_def parse_follow_log_flag_def read_lines_def
      text_lines_def utf8_take_def truthy_def emit_def agreeable_def ascii_def)

lemma launch_twice:
  "launch_module agreeable
      ((new_ModuleManager [] None)\<lparr>active_processes := [ascii ''x.sh'' \<mapsto> 0]\<rparr>) (ascii ''x.sh'') []
      ((storage (ascii ''modules/x.sh'') (ascii ''echo hi'' @ [10]))
        \<lparr>next_pid := 1,
         trace := [Popen 0 [ascii ''bash'', ascii ''modules/x.sh''] None,
                   Print (ascii ''Module x.sh launched.'')]\<rparr>)
   = (Inr True,
      (new_ModuleManager [] None)\<lparr>active_processes := [ascii ''x.sh'' \<mapsto> 1]\<rparr>,
      (storage (ascii ''modules/x.sh'') (ascii ''echo hi'' @ [10]))
        \<lparr>next_pid := 2,
         trace := [Popen 0 [ascii ''bash'', ascii ''modules/x.sh''] None,
                   Print (ascii ''Module x.sh launched.''),
                   Popen 1 [ascii ''bash'', ascii ''modules/x.sh''] None,
                   Print (ascii ''Module x.sh launched.'')]\<rparr>)"
  by (simp add: launch_module_def launch_local_def Let_def storage_def initial_world_def
      new_ModuleManager_def path_join_def py_startswith_def py_endswith_def
      parse_silent_flag_def parse_logfile_path_def parse_follow_log_flag_def read_lines_def
      text_lines_def utf8_take_def truthy_def emit_def agreeable_def ascii_def)

theorem relaunch_overwrites_witness:
  "terminated (trace (snd (stop_module
      ((new_ModuleManager [] None)\<lparr>active_processes := [ascii ''x.sh'' \<mapsto> 1]\<rparr>) (ascii ''x.sh'')
      ((storage (ascii ''modules/x.sh'') (ascii ''echo hi'' @ [10]))
        \<lparr>next_pid := 2,
         trace := [Popen 0 [ascii ''bash'', ascii ''modules/x.sh''] None,
                   Print (ascii ''Module x.sh launched.''),
                   Popen 1 [ascii ''bash'', ascii ''modules/x.sh''] None,
                   Print (ascii ''Module x.sh launched.'')]\<rparr>)))) = [1]
   \<and> dom (active_processes
            ((new_ModuleManager [] None)\<lparr>active_processes := [ascii ''x.sh'' \<mapsto> (1::nat)]\<rparr>))
       = {ascii ''x.sh''}"
proof -
  have n: "ssh_manager (new_ModuleManager [] None) = None"
    by (simp add: new_ModuleManager_def)
  from relaunch_overwrites[OF n launch_once launch_twice]
  show ?thesis by (simp add: storage_def initial_world_def new_ModuleManager_def)
qed

section \<open>What a launch does to the module file\<close>


lemma transfer_file_objects [simp]: "objects (transfer_file en r p w) = objects w"
  by (simp add: transfer_file_def Let_def split: option.splits)

lemma run_remote_script_files [simp]:
  "files (snd (run_remote_script en r name args w)) = files w"
  by (simp add: run_remote_script_def split: sum.splits option.splits)







lemma converted_again_changes:
  assumes "has_crlf bs" "utf8_decode bs \<noteq> None"
  shows "converted (converted bs) \<noteq> bs"
proof -
  from assms(2) obtain s where "utf8_decode bs = Some s" by auto
  from converted_valid[OF this] replace_crlf_shorter[OF assms(1)]
  have "length (converted bs) < length bs" by simp
  with converted_length[of "converted bs"] have "length (converted (converted bs)) < length bs"
    by simp
  then show ?thesis by auto
qed





text \<open>
  The case the claim leaves out: a silent local launch whose log file is the module file
  itself sends the output of the process to the end of the module file.
\<close>

lemma launch_redirected_into_module_file:
  "files (snd (snd (launch_module (agreeable\<lparr>child_output := (\<lambda>argv. ascii ''hi'' @ [10])\<rparr>)
            (new_ModuleManager [] None) (ascii ''x.sh'') []
            (storage (ascii ''modules/x.sh'')
               (ascii ''# Silent: true'' @ [10] @ ascii ''# Logfile: modules/x.sh'' @ [10])))))
     (ascii ''modules/x.sh'')
   = Some (ascii ''# Silent: true'' @ [10] @ ascii ''# Logfile: modules/x.sh'' @ [10]
           @ ascii ''hi'' @ [10])"
  by (simp add: eval_defs py_lower_def ascii_def)

section \<open>Faults of a launch and the command loop\<close>





















text \<open>
  Two more faults that leave \<open>launch_module\<close>: a log file path that names a directory, on
  a silent local launch and on a remote launch; and the remote session raising EOFError,
  which ends the command loop.
\<close>

lemma launch_with_directory_as_logfile:
  "fst (launch_module (agreeable\<lparr>open_fault := [ascii ''logs'' \<mapsto> EISDIR]\<rparr>)
          (new_ModuleManager [] None) (ascii ''x.sh'') []
          (storage (ascii ''modules/x.sh'')
             (ascii ''# Silent: true'' @ [10] @ ascii ''# Logfile: logs'' @ [10])))
     = Inl IsADirectoryError
   \<and> fst (launch_module (agreeable\<lparr>open_fault := [ascii ''logs'' \<mapsto> EISDIR]\<rparr>)
          (module_manager (fst (session
             (storage (ascii ''modules/x.sh'') (ascii ''# Logfile: logs'' @ [10])))))
          (ascii ''x.sh'') []
          (snd (session
             (storage (ascii ''modules/x.sh'') (ascii ''# Logfile: logs'' @ [10])))))
     = Inl IsADirectoryError"
  by (simp add: session_eval eval_defs py_lower_def ascii_def)

lemma remote_eof_ends_the_loop:
  "fst (run_launch (agreeable\<lparr>remote_output := (\<lambda>c. None), remote_fault := (\<lambda>c. EOFError)\<rparr>)
          (ascii ''x.sh'') []
          (fst (session (storage (ascii ''modules/x.sh'') (ascii ''echo hi'' @ [10]))))
          (snd (session (storage (ascii ''modules/x.sh'') (ascii ''echo hi'' @ [10])))))
     = Break"
  by (simp add: run_launch_def run_except_def session_eval eval_defs ascii_def)

section \<open>Dispatch after a disconnect\<close>

text \<open>
  Claim C1 says that a launch takes the remote path only while a session is active, and the
  local path after a disconnect. \<open>handle_ssh_disconnect\<close> clears the Engine's reference and
  the client of the SSHModuleManager, but the ModuleManager still holds its reference to
  that object, and \<open>launch_module\<close> tests that reference only. After \<open>connect u@h\<close> and
  \<open>disconnect\<close> the toolbar shows no connection, yet launching an installed module takes
  the remote branch: no local process is started and the launch raises AttributeError.
\<close>

theorem disconnect_then_launch:
  "\<not> toolbar_connected
        (fst (session_closed (storage (ascii ''modules/x.sh'') (ascii ''echo hi'' @ [10]))))
        (snd (session_closed (storage (ascii ''modules/x.sh'') (ascii ''echo hi'' @ [10]))))
   \<and> fst (launch_module agreeable
          (module_manager (fst (session_closed (storage (ascii ''modules/x.sh'') (ascii ''echo hi'' @ [10])))))
          (ascii ''x.sh'') []
          (snd (session_closed (storage (ascii ''modules/x.sh'') (ascii ''echo hi'' @ [10])))))
     = Inl AttributeError
   \<and> started (trace (snd (snd (launch_module agreeable
          (module_manager (fst (session_closed (storage (ascii ''modules/x.sh'') (ascii ''echo hi'' @ [10])))))
          (ascii ''x.sh'') []
          (snd (session_closed (storage (ascii ''modules/x.sh'') (ascii ''echo hi'' @ [10]))))))))
     = []"
  by (simp add: session_closed_eval toolbar_connected_def eval_defs ascii_def)

end
